theory Spec2Isabelle
  imports Complex_Main "HOL-Library.Log_Nat"
begin

section \<open>The image compressor of \<^verbatim>\<open>src/lib/ImageDeepCABAC.ts\<close>\<close>

text \<open>
  The class \<^verbatim>\<open>ImageDeepCABAC\<close> tiles an image into blocks, quantizes the samples, mixes the
  colour channels and runs an arithmetic coder over every block. The embedding below
  follows the class method by method.

  Numbers. A finite floating-point value is the rational it denotes. The samples of a
  tensor are binary32 values: every arithmetic operation on a tensor rounds its exact
  result to the nearest binary32 value, ties to even, as IEEE 754 prescribes and the CPU
  backend computes. A JavaScript \<^verbatim>\<open>number\<close> is a binary64 value; an option of the
  constructor may also be \<open>NaN\<close> or infinite. Overflow to an infinite sample is not
  modelled: the statements about sample values bound the quantization level, and then
  no sample leaves the range of binary32. The coder's own arithmetic is kept exact: on
  the values it meets below (\<open>0\<close>, \<open>1\<close>, the threshold \<open>1/2\<close>, quotients of counts) binary64
  computes without rounding or agrees in every comparison made.

  Tensors. The TensorFlow.js operations the class calls are library code; they are modelled
  by their documented meaning on a tensor given as its shape and its values in row-major
  order. The memory of the runtime is not modelled: the statements that promise a result
  bound the sizes of the image and of the blocks.
\<close>

subsection \<open>Data\<close>

datatype colorSpace = RGB | YCbCr

text \<open>
  A JavaScript \<^verbatim>\<open>number\<close> as an option of the class: \<open>NaN\<close>, an infinity, or a finite value
  (\<open>Num 0\<close> stands for both zeros).
\<close>

datatype number = NaN | Infinity | NegInfinity | Num rat

text \<open>The private field \<^verbatim>\<open>options\<close> (lines 5-9).\<close>

record options =
  blockSize :: number
  quantizationLevel :: number
  colorSpace :: colorSpace

text \<open>
  The constructor's argument, \<^verbatim>\<open>Partial<options>\<close>: every field may be absent.
\<close>

record partial_options =
  given_blockSize :: "number option"
  given_quantizationLevel :: "number option"
  given_colorSpace :: "colorSpace option"

text \<open>
  The object: the frequency table \<^verbatim>\<open>contexts\<close>, a \<^verbatim>\<open>Map\<close> from a key string to a record
  with one field \<^verbatim>\<open>frequency\<close>, kept as an association list in insertion order, and the
  options. Counts are naturals.
\<close>

record ImageDeepCABAC =
  contexts :: "(string \<times> nat) list"
  options :: options

text \<open>
  The browser's \<^verbatim>\<open>ImageData\<close>: \<open>data\<close> holds four bytes (red, green, blue, alpha) for
  each pixel, row by row.
\<close>

record imageData =
  width :: nat
  height :: nat
  data :: "nat list"

text \<open>What the browser guarantees of an \<^verbatim>\<open>ImageData\<close>: both sides positive, four bytes per pixel.\<close>

definition wf_imageData :: "imageData \<Rightarrow> bool" where
  "wf_imageData im \<longleftrightarrow>
     0 < width im \<and> 0 < height im \<and> length (data im) = 4 * (width im * height im)"

text \<open>The entries of \<open>data\<close> are bytes (a \<^verbatim>\<open>Uint8ClampedArray\<close>).\<close>

definition byte_data :: "imageData \<Rightarrow> bool" where
  "byte_data im \<longleftrightarrow> list_all (\<lambda>b. b < 256) (data im)"

record tensor =
  shape :: "nat list"
  vals :: "rat list"

text \<open>The interval returned by \<^verbatim>\<open>getProbability\<close>.\<close>

record probability =
  low :: rat
  high :: rat

text \<open>The value returned by \<^verbatim>\<open>compress\<close> (lines 93-102).\<close>

record metadata =
  m_width :: nat
  m_height :: nat
  m_colorSpace :: colorSpace
  m_blockSize :: number
  m_quantizationLevel :: number

record compressResult =
  compressed :: "nat list list"
  metadata :: metadata

text \<open>An exception thrown by a tensor operation that rejects a shape.\<close>

datatype tf_error = ShapeError

subsection \<open>Rounding to a binary floating-point format\<close>

text \<open>The nearest integer, a tie going to the even one.\<close>

definition rne :: "rat \<Rightarrow> int" where
  "rne q =
     (let f = \<lfloor>q\<rfloor>; r = q - of_int f
      in if r < 1 / 2 then f else if 1 / 2 < r then f + 1 else if even f then f else f + 1)"

text \<open>The binary exponent of \<open>x \<noteq> 0\<close>: the \<open>e\<close> with \<open>2\<^sup>e \<le> |x| < 2\<^sup>e\<^sup>+\<^sup>1\<close>.\<close>

definition expo :: "rat \<Rightarrow> int" where
  "expo x =
     (case quotient_of \<bar>x\<bar> of
        (a, b) \<Rightarrow>
          let e = bitlen a - bitlen b
          in if power_int 2 e \<le> \<bar>x\<bar> then e else e - 1)"

text \<open>
  Rounding to the format with \<open>p\<close> significant bits and least normal exponent \<open>emin\<close>:
  the spacing of the format near \<open>x\<close> is \<open>2\<close> to the power \<open>max (expo x) emin - p + 1\<close>, and \<open>x\<close>
  goes to the nearest multiple of it, ties to even. Below \<open>2\<^sup>e\<^sup>m\<^sup>i\<^sup>n\<close> this is the gradual
  underflow of the format. The largest finite value of the format is not enforced.
\<close>

definition roundTo :: "nat \<Rightarrow> int \<Rightarrow> rat \<Rightarrow> rat" where
  "roundTo p emin x =
     (if x = 0 then 0
      else
        let q = power_int 2 (max (expo x) emin - int p + 1)
        in of_int (rne (x / q)) * q)"

definition round32 :: "rat \<Rightarrow> rat" where
  "round32 x = roundTo 24 (- 126) x"

definition round64 :: "rat \<Rightarrow> rat" where
  "round64 x = roundTo 53 (- 1022) x"

subsection \<open>The tensor operations used by the class\<close>

text \<open>
  \<^verbatim>\<open>tf.browser.fromPixels\<close> keeps the first three bytes of every pixel and gives a tensor
  of shape \<open>[height, width, 3]\<close>.
\<close>

fun dropAlpha :: "nat list \<Rightarrow> rat list" where
  "dropAlpha (r # g # b # a # rest) = of_nat r # of_nat g # of_nat b # dropAlpha rest"
| "dropAlpha rest = []"

definition tf_fromPixels :: "imageData \<Rightarrow> tensor" where
  "tf_fromPixels im = \<lparr>shape = [height im, width im, 3], vals = dropAlpha (data im)\<rparr>"

text \<open>
  \<^verbatim>\<open>tf.pad(t, [[0, ph], [0, pw], [0, 0]])\<close> on a tensor of shape \<open>[h, w, c]\<close>: every row gets
  \<open>pw\<close> zero pixels at its end, and \<open>ph\<close> zero rows follow the last row.
\<close>

definition tf_pad :: "tensor \<Rightarrow> nat \<Rightarrow> nat \<Rightarrow> tensor" where
  "tf_pad t ph pw =
     (case shape t of
        [h, w, c] \<Rightarrow>
          \<lparr>shape = [h + ph, w + pw, c],
           vals = concat (map (\<lambda>i. take (w * c) (drop (i * (w * c)) (vals t)) @ replicate (pw * c) 0)
                              [0..<h])
                  @ replicate (ph * ((w + pw) * c)) 0\<rparr>
      | _ \<Rightarrow> t)"

text \<open>
  \<^verbatim>\<open>tf.reshape(t, [-1, d1, d2, d3])\<close>: the values stay in their order, the leading
  dimension is inferred, and the call throws when the values do not fill a whole number
  of blocks.
\<close>

definition tf_reshape :: "tensor \<Rightarrow> nat list \<Rightarrow> tf_error + tensor" where
  "tf_reshape t dims =
     (let m = prod_list dims in
      if m = 0 \<or> length (vals t) mod m \<noteq> 0 then Inl ShapeError
      else Inr \<lparr>shape = (length (vals t) div m) # dims, vals = vals t\<rparr>)"

text \<open>
  Elementwise operations with a JavaScript number \<open>s\<close>, and the elementwise sum of two
  tensors. The number becomes a binary32 scalar, the tensor is a binary32 tensor (the
  integer tensor of \<^verbatim>\<open>fromPixels\<close> is converted without loss), and every quotient, product
  and sum is rounded to binary32. \<^verbatim>\<open>tf.floor\<close> is exact.
\<close>

definition tf_div :: "tensor \<Rightarrow> rat \<Rightarrow> tensor" where
  "tf_div t s = t\<lparr>vals := map (\<lambda>x. round32 (x / round32 s)) (vals t)\<rparr>"

definition tf_floor :: "tensor \<Rightarrow> tensor" where
  "tf_floor t = t\<lparr>vals := map (\<lambda>x. of_int \<lfloor>x\<rfloor>) (vals t)\<rparr>"

definition tf_mul :: "tensor \<Rightarrow> rat \<Rightarrow> tensor" where
  "tf_mul t s = t\<lparr>vals := map (\<lambda>x. round32 (x * round32 s)) (vals t)\<rparr>"

definition tf_add :: "tensor \<Rightarrow> tensor \<Rightarrow> tensor" where
  "tf_add a b = a\<lparr>vals := map (\<lambda>(x, y). round32 (x + y)) (zip (vals a) (vals b))\<rparr>"

text \<open>
  \<^verbatim>\<open>tf.split(t, 3, -1)\<close>: three tensors, each one third of the last axis; it throws when
  the last axis is not a multiple of three. With \<open>d\<close> the last dimension and \<open>w = d div 3\<close>,
  value \<open>j\<close> of part \<open>k\<close> is value \<open>(j div w) * d + k * w + j mod w\<close> of \<open>t\<close>.
\<close>

definition tf_split3 :: "tensor \<Rightarrow> tf_error + tensor list" where
  "tf_split3 t =
     (if shape t = [] \<or> last (shape t) mod 3 \<noteq> 0 then Inl ShapeError
      else
        let d = last (shape t); w = d div 3 in
        Inr (map (\<lambda>k. \<lparr>shape = butlast (shape t) @ [w],
                        vals = map (\<lambda>j. vals t ! ((j div w) * d + k * w + j mod w))
                                   [0..<(length (vals t) div d) * w]\<rparr>)
                 [0..<3]))"

text \<open>
  \<^verbatim>\<open>tf.stack(ts, -1)\<close>: a new last axis of length \<open>length ts\<close>; value \<open>j\<close> of the result is
  value \<open>j div m\<close> of tensor \<open>j mod m\<close>, with \<open>m = length ts\<close>.
\<close>

definition tf_stack :: "tensor list \<Rightarrow> tensor" where
  "tf_stack ts =
     (let m = length ts; n = length (vals (hd ts)) in
      \<lparr>shape = shape (hd ts) @ [m],
       vals = map (\<lambda>j. vals (ts ! (j mod m)) ! (j div m)) [0..<n * m]\<rparr>)"

text \<open>
  \<^verbatim>\<open>await blocks.array()\<close> followed by \<^verbatim>\<open>block.flat(3)\<close> for every entry (lines 107-110):
  one flat list per index of the leading axis. The tensors that reach this point have
  rank 4 or 5, which \<^verbatim>\<open>flat(3)\<close> flattens completely.
\<close>

definition blockData :: "tensor \<Rightarrow> rat list list" where
  "blockData t =
     (let m = prod_list (tl (shape t)) in
      map (\<lambda>k. take m (drop (k * m) (vals t))) [0..<hd (shape t)])"

subsection \<open>The constructor and the pure methods\<close>

text \<open>
  \<^verbatim>\<open>x || d\<close> for an optional number \<open>x\<close>: the default \<open>d\<close> replaces an absent field, a zero
  and \<open>NaN\<close>, the falsy numbers; any other number, a negative, fractional or infinite
  one too, is kept.
\<close>

definition orDefault :: "number option \<Rightarrow> number \<Rightarrow> number" where
  "orDefault x d =
     (case x of
        None \<Rightarrow> d
      | Some n \<Rightarrow> if n = NaN \<or> n = Num 0 then d else n)"

text \<open>Lines 11-18.\<close>

definition constructor :: "partial_options \<Rightarrow> ImageDeepCABAC" where
  "constructor opts =
     \<lparr>contexts = [],
      options =
        \<lparr>blockSize = orDefault (given_blockSize opts) (Num 8),
         quantizationLevel = orDefault (given_quantizationLevel opts) (Num 8),
         colorSpace = (case given_colorSpace opts of None \<Rightarrow> YCbCr | Some c \<Rightarrow> c)\<rparr>\<rparr>"

text \<open>The default argument \<^verbatim>\<open>{}\<close> of the constructor: no field given.\<close>

definition no_options :: partial_options where
  "no_options = \<lparr>given_blockSize = None, given_quantizationLevel = None, given_colorSpace = None\<rparr>"

text \<open>The options that \<^verbatim>\<open>components/ImageCompressor.tsx\<close> passes (its lines 46-50).\<close>

definition ui_options :: partial_options where
  "ui_options =
     \<lparr>given_blockSize = Some (Num 8), given_quantizationLevel = Some (Num 16),
        given_colorSpace = Some YCbCr\<rparr>"

definition loadImage :: "imageData \<Rightarrow> tensor" where
  "loadImage im = tf_fromPixels im"

text \<open>Lines 24-29.\<close>

definition rgbToYCbCr :: "rat \<Rightarrow> rat \<Rightarrow> rat \<Rightarrow> rat \<times> rat \<times> rat" where
  "rgbToYCbCr r g b =
     (let y = 0.299 * r + 0.587 * g + 0.114 * b;
          cb = 128 - 0.168736 * r - 0.331264 * g + 0.5 * b;
          cr = 128 + 0.5 * r - 0.418688 * g - 0.081312 * b
      in (y, cb, cr))"

text \<open>
  Lines 31-51. A positive integer block size pads and reshapes. A negative block size
  makes the target shape \<^verbatim>\<open>[-1, blockSize, blockSize, channels]\<close> one that \<^verbatim>\<open>tf.reshape\<close>
  rejects, so the call throws. For the remaining block sizes (positive and not an integer,
  infinite; \<open>0\<close> and \<open>NaN\<close> are never stored) the padded sizes are no whole numbers and the
  outcome depends on the tensor backend; the model takes the call to throw, and no
  statement below is about such a block size.
\<close>

definition createImageBlocks :: "ImageDeepCABAC \<Rightarrow> tensor \<Rightarrow> tf_error + tensor" where
  "createImageBlocks this t =
     (case shape t of
        [h, w, channels] \<Rightarrow>
          (case blockSize (options this) of
             Num bs \<Rightarrow>
               if bs \<le> 0 \<or> of_int \<lfloor>bs\<rfloor> \<noteq> bs then Inl ShapeError
               else
                 let paddedHeight = \<lceil>of_nat h / bs\<rceil> * \<lfloor>bs\<rfloor>;
                     paddedWidth = \<lceil>of_nat w / bs\<rceil> * \<lfloor>bs\<rfloor>;
                     padded = tf_pad t (nat (paddedHeight - int h)) (nat (paddedWidth - int w))
                 in tf_reshape padded [nat \<lfloor>bs\<rfloor>, nat \<lfloor>bs\<rfloor>, channels]
           | _ \<Rightarrow> Inl ShapeError)
      | _ \<Rightarrow> Inl ShapeError)"

text \<open>
  \<^verbatim>\<open>256 / quantizationLevel\<close>, the binary64 quotient of line 54. The constructor never
  stores \<open>0\<close> or \<open>NaN\<close>. For an infinite level the quotient is a zero; the samples are then
  \<open>NaN\<close> in the code, which a tensor of this model cannot hold, and no statement below
  about sample values is about such a level.
\<close>

definition stepOf :: "number \<Rightarrow> rat" where
  "stepOf level = (case level of Num q \<Rightarrow> round64 (256 / q) | _ \<Rightarrow> 0)"

text \<open>Lines 53-56.\<close>

definition quantizeBlock :: "ImageDeepCABAC \<Rightarrow> tensor \<Rightarrow> tensor" where
  "quantizeBlock this block =
     (let step = stepOf (quantizationLevel (options this)) in
      tf_mul (tf_floor (tf_div block step)) step)"

subsection \<open>The context model\<close>

text \<open>
  \<^verbatim>\<open>Array.prototype.join\<close>, and the conversion of a number to a string that \<^verbatim>\<open>join\<close> and
  the template literal of line 155 perform. The conversion belongs to the JavaScript
  runtime; it is the parameter \<open>str\<close> of every function that builds a key.
\<close>

fun join :: "string list \<Rightarrow> string \<Rightarrow> string" where
  "join [] sep = []"
| "join [x] sep = x"
| "join (x # y # ys) sep = x @ sep @ join (y # ys) sep"

text \<open>Lines 143-152.\<close>

definition getBlockContext :: "(rat \<Rightarrow> string) \<Rightarrow> rat list \<Rightarrow> nat \<Rightarrow> string" where
  "getBlockContext str block index =
     (let contextSize = 4;
          context = map (\<lambda>i. block ! i) [nat (max 0 (int index - contextSize))..<index]
      in join (map str context) ''|'')"

text \<open>The object literal returned in lines 160-163, for a count and the sum of all counts.\<close>

definition probabilityOf :: "nat \<Rightarrow> nat \<Rightarrow> probability" where
  "probabilityOf frequency total' =
     \<lparr>low = of_nat frequency / (of_nat total' + 1),
      high = (of_nat frequency + 1) / (of_nat total' + 1)\<rparr>"

text \<open>Lines 154-164. An absent key counts \<open>0\<close>; \<open>total'\<close> (the source's \<^verbatim>\<open>total\<close>) sums the counts of all keys.\<close>

definition getProbability ::
  "(rat \<Rightarrow> string) \<Rightarrow> ImageDeepCABAC \<Rightarrow> rat \<Rightarrow> string \<Rightarrow> probability" where
  "getProbability str this v context =
     (let contextKey = context @ ''_'' @ str v;
          frequency = (case map_of (contexts this) contextKey of None \<Rightarrow> 0 | Some f \<Rightarrow> f);
          total' = sum_list (map snd (contexts this))
      in probabilityOf frequency total')"

subsection \<open>The arithmetic coder\<close>

text \<open>JavaScript's \<^verbatim>\<open>x % 1\<close>: the remainder has the sign of \<open>x\<close>.\<close>

definition js_rem1 :: "rat \<Rightarrow> rat" where
  "js_rem1 x = x - of_int (if 0 \<le> x then \<lfloor>x\<rfloor> else \<lceil>x\<rceil>)"

text \<open>
  The \<^verbatim>\<open>while\<close> loop of lines 132-137 on the variables \<^verbatim>\<open>low\<close>, \<^verbatim>\<open>high\<close> and \<^verbatim>\<open>compressed\<close> (here \<open>lo\<close>, \<open>hi\<close> and
  \<open>compressed'\<close>).
  Nothing bounds its iterations (from \<open>low = high = 0\<close> it runs forever), so it is a partial
  function: \<open>None\<close> stands for a loop that does not end.
\<close>

partial_function (option) renormalize ::
  "rat \<Rightarrow> rat \<Rightarrow> nat list \<Rightarrow> (rat \<times> rat \<times> nat list) option" where
  "renormalize lo hi compressed' =
     (if (hi < 0.5 \<and> lo < 0.5) \<or> (hi \<ge> 0.5 \<and> lo \<ge> 0.5) then
        let bit = (if hi < 0.5 then 0 else 1)
        in renormalize (js_rem1 (lo * 2)) (js_rem1 (hi * 2)) (compressed' @ [bit])
      else Some (lo, hi, compressed'))"

declare renormalize.simps [code]

text \<open>The body of the \<^verbatim>\<open>for\<close> loop, lines 123-137, for the sample at index \<open>i\<close>.\<close>

definition codeSample ::
  "(rat \<Rightarrow> string) \<Rightarrow> ImageDeepCABAC \<Rightarrow> rat list \<Rightarrow> nat \<Rightarrow> rat \<Rightarrow> rat \<Rightarrow> nat list
     \<Rightarrow> (rat \<times> rat \<times> nat list) option" where
  "codeSample str this block i lo hi compressed' =
     (let context = getBlockContext str block i;
          v = block ! i;
          range = hi - lo;
          p = getProbability str this v context;
          hi' = lo + range * high p;
          lo' = lo + range * low p
      in renormalize lo' hi' compressed')"

text \<open>The \<^verbatim>\<open>for\<close> loop of lines 122-138 over the indices of the block.\<close>

fun codeSamples ::
  "(rat \<Rightarrow> string) \<Rightarrow> ImageDeepCABAC \<Rightarrow> rat list \<Rightarrow> nat list \<Rightarrow> rat \<times> rat \<times> nat list
     \<Rightarrow> (rat \<times> rat \<times> nat list) option" where
  "codeSamples str this block [] s = Some s"
| "codeSamples str this block (i # rest) (lo, hi, compressed') =
     (case codeSample str this block i lo hi compressed' of
        None \<Rightarrow> None
      | Some s' \<Rightarrow> codeSamples str this block rest s')"

text \<open>Lines 117-141.\<close>

definition compressBlock ::
  "(rat \<Rightarrow> string) \<Rightarrow> ImageDeepCABAC \<Rightarrow> rat list \<Rightarrow> nat list option" where
  "compressBlock str this block =
     (case codeSamples str this block [0..<length block] (0, 1, []) of
        None \<Rightarrow> None
      | Some (lo, hi, compressed') \<Rightarrow> Some compressed')"

text \<open>Lines 105-115: the \<^verbatim>\<open>for ... of\<close> loop pushes one result per block.\<close>

fun compressEach ::
  "(rat \<Rightarrow> string) \<Rightarrow> ImageDeepCABAC \<Rightarrow> rat list list \<Rightarrow> nat list list option" where
  "compressEach str this [] = Some []"
| "compressEach str this (block # rest) =
     (case compressBlock str this block of
        None \<Rightarrow> None
      | Some bits \<Rightarrow>
          (case compressEach str this rest of
             None \<Rightarrow> None
           | Some others \<Rightarrow> Some (bits # others)))"

definition compressBlocks ::
  "(rat \<Rightarrow> string) \<Rightarrow> ImageDeepCABAC \<Rightarrow> tensor \<Rightarrow> nat list list option" where
  "compressBlocks str this blocks = compressEach str this (blockData blocks)"

subsection \<open>The orchestrator\<close>

text \<open>
  The callback of \<^verbatim>\<open>rgb.map\<close>, lines 68-76: \<open>channel\<close> is part \<open>i\<close> of the split and \<open>others\<close>
  are the two remaining parts in their order. A decimal literal of the source is the
  binary64 value nearest to it.
\<close>

definition convertChannel :: "tensor list \<Rightarrow> nat \<Rightarrow> tensor" where
  "convertChannel rgb i =
     (let channel = rgb ! i;
          others = map (\<lambda>j. rgb ! j) (filter (\<lambda>j. j \<noteq> i) [0..<length rgb])
      in tf_add
           (tf_mul channel
              (round64 (if i = 0 then 0.299 else if i = 1 then - 0.168736 else 0.5)))
           (tf_add
              (tf_mul (others ! 0)
                 (round64 (if i = 0 then 0.587 else if i = 1 then - 0.331264 else - 0.418688)))
              (tf_mul (others ! 1)
                 (round64 (if i = 0 then 0.114 else if i = 1 then 0.5 else - 0.081312)))))"

text \<open>The callback of \<^verbatim>\<open>tf.tidy\<close>, lines 66-79.\<close>

definition convertYCbCr :: "tensor \<Rightarrow> tf_error + tensor" where
  "convertYCbCr quantized =
     (case tf_split3 quantized of
        Inl e \<Rightarrow> Inl e
      | Inr rgb \<Rightarrow> Inr (tf_stack (map (convertChannel rgb) [0..<length rgb])))"

text \<open>Lines 59-80 of \<^verbatim>\<open>compress\<close>: the tensor \<^verbatim>\<open>processed\<close> that is handed to the coder.\<close>

definition compress_processed :: "ImageDeepCABAC \<Rightarrow> imageData \<Rightarrow> tf_error + tensor" where
  "compress_processed this im =
     (let t = loadImage im in
      case createImageBlocks this t of
        Inl e \<Rightarrow> Inl e
      | Inr blocks \<Rightarrow>
          let quantized = quantizeBlock this blocks in
          if colorSpace (options this) = YCbCr then convertYCbCr quantized
          else Inr quantized)"

text \<open>
  Lines 58-103. The result is \<open>None\<close> when the coder does not end; otherwise it holds what
  the call returns or throws, and the object after the call. No statement of the class
  assigns to a field after the constructor, so the object comes back as it went in.
\<close>

definition compress ::
  "(rat \<Rightarrow> string) \<Rightarrow> ImageDeepCABAC \<Rightarrow> imageData
     \<Rightarrow> ((tf_error + compressResult) \<times> ImageDeepCABAC) option" where
  "compress str this im =
     (case compress_processed this im of
        Inl e \<Rightarrow> Some (Inl e, this)
      | Inr processed \<Rightarrow>
          (case compressBlocks str this processed of
             None \<Rightarrow> None
           | Some compressedData \<Rightarrow>
               Some (Inr \<lparr>compressed = compressedData,
                          metadata = \<lparr>m_width = width im, m_height = height im,
                                      m_colorSpace = colorSpace (options this),
                                      m_blockSize = blockSize (options this),
                                      m_quantizationLevel = quantizationLevel (options this)\<rparr>\<rparr>,
                     this)))"

subsection \<open>Notions used in the statements\<close>

text \<open>\<^verbatim>\<open>Math.ceil(n / blockSize)\<close>, the number of blocks along a side of \<open>n\<close> samples.\<close>

definition blocksAlong :: "nat \<Rightarrow> rat \<Rightarrow> nat" where
  "blocksAlong n bs = nat \<lceil>of_nat n / bs\<rceil>"

text \<open>Lines 34-42 alone: the padded image that \<^verbatim>\<open>createImageBlocks\<close> reshapes.\<close>

definition padded :: "ImageDeepCABAC \<Rightarrow> tensor \<Rightarrow> tensor" where
  "padded this t =
     (case (shape t, blockSize (options this)) of
        ([h, w, channels], Num bs) \<Rightarrow>
          let paddedHeight = \<lceil>of_nat h / bs\<rceil> * \<lfloor>bs\<rfloor>;
              paddedWidth = \<lceil>of_nat w / bs\<rceil> * \<lfloor>bs\<rfloor>
          in tf_pad t (nat (paddedHeight - int h)) (nat (paddedWidth - int w))
      | _ \<Rightarrow> t)"

text \<open>
  What \<^verbatim>\<open>quantizeBlock\<close> does to one sample, for the quantization level \<open>L\<close>: the quotient
  by the binary32 step is rounded, floored, and the product with the step is rounded.
\<close>

definition quantize :: "number \<Rightarrow> rat \<Rightarrow> rat" where
  "quantize L x =
     (let step = round32 (stepOf L)
      in round32 (of_int \<lfloor>round32 (x / step)\<rfloor> * step))"

text \<open>A coefficient of lines 71-74 as the binary32 scalar it becomes.\<close>

definition coeff :: "rat \<Rightarrow> rat" where
  "coeff c = round32 (round64 c)"

text \<open>One row of lines 70-75: three rounded products and two rounded sums.\<close>

definition mixRow :: "rat \<Rightarrow> rat \<Rightarrow> rat \<Rightarrow> rat \<Rightarrow> rat \<Rightarrow> rat \<Rightarrow> rat" where
  "mixRow x a y b z c =
     round32 (round32 (x * coeff a) + round32 (round32 (y * coeff b) + round32 (z * coeff c)))"

text \<open>
  What lines 70-75 compute for one pixel \<open>(r, g, b)\<close>: channel \<open>i\<close> is multiplied by the
  first coefficient of row \<open>i\<close>, the two other channels, in their order, by the second and
  the third.
\<close>

definition mixed :: "rat \<times> rat \<times> rat \<Rightarrow> rat \<times> rat \<times> rat" where
  "mixed p =
     (case p of
        (r, g, b) \<Rightarrow>
          (mixRow r 0.299 g 0.587 b 0.114,
           mixRow g (- 0.168736) r (- 0.331264) b 0.5,
           mixRow b 0.5 r (- 0.418688) g (- 0.081312)))"

text \<open>Part \<open>k\<close> of \<^verbatim>\<open>tf.split(t, 3, -1)\<close> for a tensor of \<open>n\<close> pixels with three channels.\<close>

definition channelOf :: "tensor \<Rightarrow> nat \<Rightarrow> nat \<Rightarrow> tensor" where
  "channelOf t n k =
     \<lparr>shape = butlast (shape t) @ [1], vals = map (\<lambda>j. vals t ! (j * 3 + k)) [0..<n]\<rparr>"

text \<open>
  A number-to-string conversion to put for \<open>str\<close> in closed instances: the sign and the
  decimal digits of the integer part. It prints an integer as JavaScript does and cuts the
  fraction of any other number; every statement below holds for every \<open>str\<close>.
\<close>

fun digits :: "nat \<Rightarrow> string" where
  "digits n =
     (if n < 10 then [char_of (48 + n)] else digits (n div 10) @ [char_of (48 + n mod 10)])"

declare digits.simps [simp del]

definition numberToString :: "rat \<Rightarrow> string" where
  "numberToString x =
     (if x < 0 then CHR ''-'' # digits (nat \<lfloor>- x\<rfloor>) else digits (nat \<lfloor>x\<rfloor>))"

text \<open>
  The objects a program can hold: a freshly constructed one, and the object left by a
  call of \<^verbatim>\<open>compress\<close>, whether the call returned or threw. The other public methods
  (\<^verbatim>\<open>loadImage\<close>, \<^verbatim>\<open>rgbToYCbCr\<close>, \<^verbatim>\<open>createImageBlocks\<close>, \<^verbatim>\<open>quantizeBlock\<close>) are the
  functions above: they take the object and return a value only.
\<close>

inductive reachable :: "(rat \<Rightarrow> string) \<Rightarrow> ImageDeepCABAC \<Rightarrow> bool" for str where
  constructed: "reachable str (constructor opts)"
| called: "reachable str this \<Longrightarrow> compress str this im = Some (r, this') \<Longrightarrow> reachable str this'"

text \<open>
  The tiling the specification describes (section 4.2, in its words: blocks are the
  \<open>blockSize \<times> blockSize\<close> tiles of the padded image, enumerated left to right, top to
  bottom): tile \<open>k\<close> of a padded image of shape \<open>[H, W, c]\<close>, its samples row by row.
\<close>

definition spec_tile :: "tensor \<Rightarrow> nat \<Rightarrow> nat \<Rightarrow> rat list" where
  "spec_tile p bs k =
     (case shape p of
        [H, W, c] \<Rightarrow>
          let perRow = W div bs; top = (k div perRow) * bs; left = (k mod perRow) * bs
          in concat (map (\<lambda>i. take (bs * c) (drop (((top + i) * W + left) * c) (vals p))) [0..<bs])
      | _ \<Rightarrow> [])"

definition spec_tiles :: "tensor \<Rightarrow> nat \<Rightarrow> rat list list" where
  "spec_tiles p bs =
     (case shape p of
        [H, W, c] \<Rightarrow> map (spec_tile p bs) [0..<(H div bs) * (W div bs)]
      | _ \<Rightarrow> [])"

text \<open>
  An image four pixels wide and two high; pixel \<open>p\<close> has the bytes \<open>10p + 1\<close>, \<open>10p + 2\<close>,
  \<open>10p + 3\<close> and alpha \<open>255\<close>.
\<close>

definition image_4x2 :: imageData where
  "image_4x2 =
     \<lparr>width = 4, height = 2,
      data = [1, 2, 3, 255, 11, 12, 13, 255, 21, 22, 23, 255, 31, 32, 33, 255,
              41, 42, 43, 255, 51, 52, 53, 255, 61, 62, 63, 255, 71, 72, 73, 255]\<rparr>"

text \<open>
  The stage order of the specification's overview (section 2: transform, tile, quantize):
  the colour mix of \<^verbatim>\<open>compress\<close> applied to every pixel of the image first, then
  \<^verbatim>\<open>createImageBlocks\<close>, then \<^verbatim>\<open>quantizeBlock\<close>.
\<close>

definition mixPixels :: "tensor \<Rightarrow> tensor" where
  "mixPixels t =
     t\<lparr>vals := concat (map (\<lambda>p. case mixed (vals t ! (3 * p), vals t ! (3 * p + 1), vals t ! (3 * p + 2)) of
                                   (y, cb, cr) \<Rightarrow> [y, cb, cr])
                            [0..<length (vals t) div 3])\<rparr>"

definition spec_order_processed :: "ImageDeepCABAC \<Rightarrow> imageData \<Rightarrow> tf_error + tensor" where
  "spec_order_processed this im =
     (let t = loadImage im;
          transformed = (if colorSpace (options this) = YCbCr then mixPixels t else t)
      in case createImageBlocks this transformed of
           Inl e \<Rightarrow> Inl e
         | Inr blocks \<Rightarrow> Inr (quantizeBlock this blocks))"

section \<open>Properties\<close>

subsection \<open>The coder on the empty frequency table\<close>

lemma getProbability_empty:
  "contexts this = [] \<Longrightarrow> getProbability str this v c = \<lparr>low = 0, high = 1\<rparr>"
  by (simp add: getProbability_def probabilityOf_def)

lemma renormalize_unit: "renormalize 0 1 bits = Some (0, 1, bits)"
  by (subst renormalize.simps) simp

lemma codeSample_empty:
  "contexts this = [] \<Longrightarrow> codeSample str this block i 0 1 bits = Some (0, 1, bits)"
  by (simp add: codeSample_def getProbability_empty renormalize_unit)

lemma codeSamples_empty:
  "contexts this = [] \<Longrightarrow> codeSamples str this block idxs (0, 1, bits) = Some (0, 1, bits)"
  by (induction idxs) (simp_all add: codeSample_empty)

lemma compressBlock_empty:
  "contexts this = [] \<Longrightarrow> compressBlock str this block = Some []"
  by (simp add: compressBlock_def codeSamples_empty)

lemma compressEach_empty:
  "contexts this = [] \<Longrightarrow> compressEach str this blocks = Some (replicate (length blocks) [])"
  by (induction blocks) (simp_all add: compressBlock_empty)

lemma compressBlocks_empty:
  "contexts this = [] \<Longrightarrow> compressBlocks str this t = Some (replicate (hd (shape t)) [])"
  by (simp add: compressBlocks_def compressEach_empty blockData_def Let_def)

lemma contexts_constructor: "contexts (constructor opts) = []"
  by (simp add: constructor_def)

lemma compress_keeps_object: "compress str this im = Some (r, this') \<Longrightarrow> this' = this"
  by (auto simp: compress_def split: sum.splits option.splits)

lemma reachable_contexts: "reachable str this \<Longrightarrow> contexts this = []"
  by (induction rule: reachable.induct) (auto simp: contexts_constructor dest: compress_keeps_object)

text \<open>
  Claim C1, as amended. On the empty frequency table every interval that
  \<^verbatim>\<open>getProbability\<close> returns has \<open>low = 0\<close> and \<open>high = 1\<close>; coding a sample from the interval
  \<open>[0, 1)\<close> leaves the interval as it is and pushes no bit, since \<open>high \<ge> 0.5 > low\<close> ends
  the renormalization loop at once; so the bit sequence of a block has length \<open>0\<close>, not
  the number of its samples.
\<close>

theorem degenerate_coder_emits_no_bit:
  assumes "contexts this = []"
  shows "getProbability str this v context = \<lparr>low = 0, high = 1\<rparr>
       \<and> codeSample str this block i 0 1 bits = Some (0, 1, bits)
       \<and> map_option length (compressBlock str this block) = Some 0"
  using assms by (simp add: getProbability_empty codeSample_empty compressBlock_empty)

theorem degenerate_coder_emits_no_bit_witness:
  "contexts (constructor no_options) = []
   \<and> getProbability numberToString
        (constructor no_options)
        7 ''3|5'' = \<lparr>low = 0, high = 1\<rparr>
   \<and> codeSample numberToString
        (constructor no_options)
        [3, 5, 7] 2 0 1 [] = Some (0, 1, [])
   \<and> map_option length
        (compressBlock numberToString
           (constructor no_options)
           [3, 5, 7]) = Some 0"
  using degenerate_coder_emits_no_bit
          [of "constructor no_options"
              numberToString 7 "''3|5''" "[3, 5, 7]" 2 "[]"]
  by (simp add: constructor_def)

text \<open>
  The claim as the specification states it (one bit per sample) fails on a block of one
  sample: the coder returns, and what it returns does not have length one.
\<close>

theorem one_bit_per_sample_counterexample:
  "map_option length
     (compressBlock numberToString
        (constructor no_options)
        [7])
   \<noteq> Some (length [7 :: rat])"
  by (simp add: compressBlock_empty contexts_constructor)

subsection \<open>Shapes along the pipeline\<close>

lemma length_dropAlpha: "length (dropAlpha xs) = 3 * (length xs div 4)"
  by (induction xs rule: dropAlpha.induct) simp_all

lemma loadImage_shape: "shape (loadImage im) = [height im, width im, 3]"
  by (simp add: loadImage_def tf_fromPixels_def)

lemma loadImage_length:
  "length (data im) = 4 * (width im * height im)
   \<Longrightarrow> length (vals (loadImage im)) = height im * (width im * 3)"
  by (simp add: loadImage_def tf_fromPixels_def length_dropAlpha mult.commute)

lemma row_length:
  assumes "length xs = h * k" "i < h"
  shows "length (take k (drop (i * k) xs)) = k"
proof -
  have "Suc i \<le> h" using assms(2) by simp
  then have "Suc i * k \<le> h * k" by (rule mult_le_mono1)
  then show ?thesis using assms(1) by simp
qed

lemma length_tf_pad:
  assumes "shape t = [h, w, c]" "length (vals t) = h * (w * c)"
  shows "length (vals (tf_pad t ph pw)) = (h + ph) * ((w + pw) * c)"
proof -
  let ?f = "\<lambda>i. take (w * c) (drop (i * (w * c)) (vals t)) @ replicate (pw * c) (0::rat)"
  have rows: "map (\<lambda>i. length (?f i)) [0..<h] = map (\<lambda>i. (w + pw) * c) [0..<h]"
    by (rule map_cong)
      (simp_all add: row_length [OF assms(2)] add_mult_distrib del: length_take length_drop)
  have "length (concat (map ?f [0..<h])) = sum_list (map (\<lambda>i. length (?f i)) [0..<h])"
    by (simp only: length_concat map_map comp_def)
  also have "\<dots> = h * ((w + pw) * c)"
    by (simp only: rows) (simp add: sum_list_triv)
  finally show ?thesis
    using assms(1) by (simp add: tf_pad_def add_mult_distrib)
qed

subsection \<open>Values that rounding leaves alone\<close>

lemma rne_of_int: "rne (of_int z) = z"
  by (simp add: rne_def)

lemma expo_le:
  assumes "x \<noteq> 0"
  shows "power_int 2 (expo x) \<le> \<bar>x\<bar>"
proof -
  obtain a b where q: "quotient_of \<bar>x\<bar> = (a, b)" by (cases "quotient_of \<bar>x\<bar>")
  have b: "0 < b" using q by (rule quotient_of_denom_pos)
  have x: "\<bar>x\<bar> = of_int a / of_int b" using q by (rule quotient_of_div)
  have "0 < \<bar>x\<bar>" using assms by simp
  then have a: "0 < a" using b x by (simp add: zero_less_divide_iff)
  let ?e = "bitlen a - bitlen b"
  have la: "(2::rat) ^ nat (bitlen a - 1) \<le> of_int a"
    using bitlen_bounds [OF a] by (metis of_int_le_iff of_int_numeral of_int_power)
  have ub: "(of_int b :: rat) < 2 ^ nat (bitlen b)"
    using bitlen_bounds [OF b] by (metis of_int_less_iff of_int_numeral of_int_power)
  have ba: "1 \<le> bitlen a" using a by (auto simp: bitlen_alt_def)
  have bb: "0 \<le> bitlen b" by (rule bitlen_nonneg)
  have low: "power_int 2 (?e - 1) \<le> \<bar>x\<bar>"
  proof -
    have eq: "bitlen a - bitlen b - 1 = (bitlen a - 1) - bitlen b" by linarith
    have "power_int (2::rat) (?e - 1) = power_int 2 ((bitlen a - 1) - bitlen b)"
      by (simp only: eq)
    also have "\<dots> = power_int 2 (bitlen a - 1) / power_int 2 (bitlen b)"
      by (rule power_int_diff) simp
    also have "\<dots> = 2 ^ nat (bitlen a - 1) / 2 ^ nat (bitlen b)"
      using ba bb by (simp add: power_int_nonneg_exp)
    also have "\<dots> \<le> of_int a / 2 ^ nat (bitlen b)"
      using la by (simp add: divide_right_mono)
    also have "\<dots> \<le> of_int a / of_int b"
      using ub a b by (intro divide_left_mono) simp_all
    finally show ?thesis by (simp add: x)
  qed
  show ?thesis
    using low by (simp add: expo_def q Let_def)
qed

text \<open>
  A value \<open>m \<cdot> 2\<^sup>k\<close> with \<open>|m| < 2\<^sup>p\<close> and \<open>k\<close> not below the least exponent of the format is
  a value of the format: rounding returns it.
\<close>

lemma roundTo_exact:
  assumes m: "\<bar>m\<bar> < 2 ^ p" and k: "emin - int p + 1 \<le> k"
  shows "roundTo p emin (of_int m * power_int 2 k) = of_int m * power_int 2 k"
proof (cases "m = 0")
  case True
  then show ?thesis by (simp add: roundTo_def)
next
  case False
  let ?x = "of_int m * power_int (2::rat) k"
  have x0: "?x \<noteq> 0" using False by simp
  have "power_int 2 (expo ?x) \<le> \<bar>?x\<bar>" by (rule expo_le [OF x0])
  also have "\<bar>?x\<bar> = of_int \<bar>m\<bar> * power_int 2 k" by (simp add: abs_mult)
  also have "\<dots> < 2 ^ p * power_int 2 k"
  proof -
    have "(of_int \<bar>m\<bar> :: rat) < 2 ^ p"
      using m by (metis of_int_less_iff of_int_numeral of_int_power)
    then show ?thesis by (simp add: mult_strict_right_mono)
  qed
  also have "\<dots> = power_int 2 (int p + k)"
    by (simp add: power_int_add)
  finally have lt: "power_int (2::rat) (expo ?x) < power_int 2 (int p + k)" .
  have "expo ?x < int p + k"
  proof (rule ccontr)
    assume "\<not> expo ?x < int p + k"
    then have "power_int (2::rat) (int p + k) \<le> power_int 2 (expo ?x)"
      by (intro power_int_increasing) simp_all
    with lt show False by simp
  qed
  then have g: "max (expo ?x) emin - int p + 1 \<le> k" using k by simp
  define g where "g = max (expo ?x) emin - int p + 1"
  have gk: "g \<le> k" using g by (simp add: g_def)
  have "?x / power_int 2 g = of_int m * power_int 2 (k - g)"
    by (simp add: power_int_diff)
  also have "\<dots> = of_int (m * 2 ^ nat (k - g))"
    using gk by (simp add: power_int_def)
  finally have "rne (?x / power_int 2 g) = m * 2 ^ nat (k - g)"
    by (simp only: rne_of_int)
  then have "of_int (rne (?x / power_int 2 g)) * power_int (2::rat) g
      = of_int m * (power_int 2 (k - g) * power_int 2 g)"
    using gk by (simp add: power_int_def)
  also have "\<dots> = ?x"
    by (simp add: power_int_add [symmetric])
  finally show ?thesis
    using x0 by (simp add: roundTo_def Let_def g_def)
qed

lemma round32_0: "round32 0 = 0"
  by (simp add: round32_def roundTo_def)

lemma round32_int:
  assumes "\<bar>m\<bar> < 2 ^ 24"
  shows "round32 (of_int m) = of_int m"
  using roundTo_exact [of m 24 "- 126" 0] assms by (simp add: round32_def)




lemma quantize_0: "quantize L 0 = 0"
  by (simp add: quantize_def Let_def round32_0)

lemma blocksAlong_covers:
  assumes "0 < B"
  shows "\<lceil>of_nat n / (of_nat B :: rat)\<rceil> * \<lfloor>of_nat B :: rat\<rfloor>
           = int (blocksAlong n (of_nat B) * B)"
    and "n \<le> blocksAlong n (of_nat B) * B"
proof -
  let ?a = "\<lceil>of_nat n / (of_nat B :: rat)\<rceil>"
  have "(- 1 :: rat) < of_nat n / of_nat B"
    by (rule less_le_trans [of _ 0]) simp_all
  then have nonneg: "0 \<le> ?a" by (simp only: zero_le_ceiling)
  show eq: "?a * \<lfloor>of_nat B :: rat\<rfloor> = int (blocksAlong n (of_nat B) * B)"
    using nonneg by (simp add: blocksAlong_def)
  have "of_nat n / (of_nat B :: rat) \<le> of_int ?a" by (rule le_of_int_ceiling)
  moreover have pos: "(0::rat) < of_nat B" using assms by simp
  ultimately have "(of_nat n :: rat) \<le> of_int ?a * of_nat B"
    by (simp only: pos_divide_le_eq [OF pos])
  then have "(of_int (int n) :: rat) \<le> of_int (?a * int B)" by simp
  then have "int n \<le> ?a * int B" by (simp only: of_int_le_iff)
  moreover have "?a * int B = int (blocksAlong n (of_nat B) * B)"
    using eq by simp
  ultimately have "int n \<le> int (blocksAlong n (of_nat B) * B)" by simp
  then show "n \<le> blocksAlong n (of_nat B) * B" by (simp only: of_nat_le_iff)
qed

lemma blocksAlong_one:
  assumes "0 < n" "n \<le> B"
  shows "blocksAlong n (of_nat B) = 1"
proof -
  have "(0::rat) < of_nat B" using assms by simp
  then have "\<lceil>of_nat n / (of_nat B :: rat)\<rceil> = 1"
    using assms by (intro ceiling_unique) (simp_all add: pos_divide_le_eq)
  then show ?thesis by (simp add: blocksAlong_def)
qed

lemma createImageBlocks_padded:
  "shape t = [h, w, c] \<Longrightarrow> blockSize (options this) = Num (of_nat B) \<Longrightarrow> 0 < B
   \<Longrightarrow> createImageBlocks this t = tf_reshape (padded this t) [B, B, c]"
  by (simp add: createImageBlocks_def padded_def Let_def)

lemma length_padded:
  assumes sh: "shape t = [h, w, c]" and len: "length (vals t) = h * (w * c)"
    and bs: "blockSize (options this) = Num (of_nat B)" and B: "0 < B"
  shows "length (vals (padded this t))
           = (blocksAlong h (of_nat B) * blocksAlong w (of_nat B)) * (B * B * c)"
proof -
  let ?a = "blocksAlong h (of_nat B)" and ?b = "blocksAlong w (of_nat B)"
  let ?ph = "nat (\<lceil>of_nat h / (of_nat B :: rat)\<rceil> * \<lfloor>of_nat B :: rat\<rfloor> - int h)"
  let ?pw = "nat (\<lceil>of_nat w / (of_nat B :: rat)\<rceil> * \<lfloor>of_nat B :: rat\<rfloor> - int w)"
  have ph: "h + ?ph = ?a * B"
    using blocksAlong_covers [OF B, of h] by linarith
  have pw: "w + ?pw = ?b * B"
    using blocksAlong_covers [OF B, of w] by linarith
  have "padded this t = tf_pad t ?ph ?pw"
    using sh bs by (simp add: padded_def Let_def)
  then have "length (vals (padded this t)) = (?a * B) * ((?b * B) * c)"
    using length_tf_pad [OF sh len, of ?ph ?pw] by (simp only: ph pw)
  then show ?thesis by (simp add: ac_simps)
qed

lemma createImageBlocks_ok:
  assumes sh: "shape t = [h, w, c]" and len: "length (vals t) = h * (w * c)"
    and bs: "blockSize (options this) = Num (of_nat B)" and B: "0 < B" and c: "0 < c"
  shows "createImageBlocks this t =
           Inr \<lparr>shape = [blocksAlong h (of_nat B) * blocksAlong w (of_nat B), B, B, c],
                vals = vals (padded this t)\<rparr>"
proof -
  have m: "0 < B * B * c" using B c by simp
  show ?thesis
    using m by (simp add: createImageBlocks_padded [OF sh bs B] tf_reshape_def
                  length_padded [OF sh len bs B] Let_def)
qed

lemma createImageBlocks_negative:
  "blockSize (options this) = Num bs \<Longrightarrow> bs < 0 \<Longrightarrow> createImageBlocks this t = Inl ShapeError"
  by (simp add: createImageBlocks_def split: list.splits)

lemma quantizeBlock_shape: "shape (quantizeBlock this t) = shape t"
  by (simp add: quantizeBlock_def tf_mul_def tf_floor_def tf_div_def Let_def)

lemma quantizeBlock_vals:
  "vals (quantizeBlock this t) = map (quantize (quantizationLevel (options this))) (vals t)"
  by (simp add: quantizeBlock_def tf_mul_def tf_floor_def tf_div_def Let_def quantize_def)

lemma quantizeBlock_eq:
  "quantizeBlock this t = t\<lparr>vals := map (quantize (quantizationLevel (options this))) (vals t)\<rparr>"
  by (simp add: quantizeBlock_def tf_mul_def tf_floor_def tf_div_def Let_def quantize_def)

text \<open>Padding commutes with an elementwise map that fixes \<open>0\<close>.\<close>

lemma tf_pad_map:
  assumes "f 0 = 0"
  shows "tf_pad (t\<lparr>vals := map f (vals t)\<rparr>) ph pw
           = (tf_pad t ph pw)\<lparr>vals := map f (vals (tf_pad t ph pw))\<rparr>"
  using assms
  by (simp add: tf_pad_def map_concat take_map drop_map comp_def split: list.splits)

lemma padded_quantizeBlock:
  "padded this (quantizeBlock this t) = quantizeBlock this (padded this t)"
  by (simp add: quantizeBlock_eq padded_def Let_def tf_pad_map quantize_0
      split: list.splits number.splits)

subsection \<open>The colour mix pixel by pixel\<close>

lemma upt3: "[0..<3] = [0, 1, 2]"
  by (simp add: upt_rec)

lemma tf_split3_channels:
  assumes "shape t \<noteq> []" "last (shape t) = 3" "length (vals t) = 3 * n"
  shows "tf_split3 t = Inr [channelOf t n 0, channelOf t n 1, channelOf t n 2]"
  using assms by (simp add: tf_split3_def channelOf_def upt3)

text \<open>The tensor of one row of lines 70-75, for the channels \<open>x\<close>, \<open>y\<close>, \<open>z\<close> in this order.\<close>

lemma convertChannel_cases:
  "convertChannel [c0, c1, c2] 0
     = tf_add (tf_mul c0 (round64 0.299))
         (tf_add (tf_mul c1 (round64 0.587)) (tf_mul c2 (round64 0.114)))"
  "convertChannel [c0, c1, c2] 1
     = tf_add (tf_mul c1 (round64 (- 0.168736)))
         (tf_add (tf_mul c0 (round64 (- 0.331264))) (tf_mul c2 (round64 0.5)))"
  "convertChannel [c0, c1, c2] 2
     = tf_add (tf_mul c2 (round64 0.5))
         (tf_add (tf_mul c0 (round64 (- 0.418688))) (tf_mul c1 (round64 (- 0.081312))))"
  by (simp_all add: convertChannel_def upt_rec)

lemma mix_vals:
  assumes "length (vals x) = n" "length (vals y) = n" "length (vals z) = n"
  shows "length (vals (tf_add (tf_mul x a) (tf_add (tf_mul y b) (tf_mul z c)))) = n"
    and "j < n \<Longrightarrow>
         vals (tf_add (tf_mul x (round64 a))
                 (tf_add (tf_mul y (round64 b)) (tf_mul z (round64 c)))) ! j
           = mixRow (vals x ! j) a (vals y ! j) b (vals z ! j) c"
  using assms by (simp_all add: tf_add_def tf_mul_def mixRow_def coeff_def)

lemma mix_shape: "shape (tf_add (tf_mul x a) u) = shape x"
  by (simp add: tf_add_def tf_mul_def)

lemma channelOf_simps:
  "length (vals (channelOf t n k)) = n"
  "j < n \<Longrightarrow> vals (channelOf t n k) ! j = vals t ! (j * 3 + k)"
  "shape (channelOf t n k) = butlast (shape t) @ [1]"
  by (simp_all add: channelOf_def)

lemma convertYCbCr_vals:
  assumes "shape t \<noteq> []" "last (shape t) = 3" "length (vals t) = 3 * n"
  shows "\<exists>t'. convertYCbCr t = Inr t' \<and> shape t' = butlast (shape t) @ [1, 3]
           \<and> length (vals t') = 3 * n
           \<and> (\<forall>p<n. (vals t' ! (3 * p), vals t' ! (3 * p + 1), vals t' ! (3 * p + 2))
                      = mixed (vals t ! (3 * p), vals t ! (3 * p + 1), vals t ! (3 * p + 2)))"
proof -
  let ?c = "channelOf t n"
  let ?d0 = "convertChannel [?c 0, ?c 1, ?c 2] 0"
  let ?d1 = "convertChannel [?c 0, ?c 1, ?c 2] 1"
  let ?d2 = "convertChannel [?c 0, ?c 1, ?c 2] 2"
  let ?t' = "tf_stack [?d0, ?d1, ?d2]"
  have conv: "convertYCbCr t = Inr ?t'"
    by (simp add: convertYCbCr_def tf_split3_channels [OF assms] upt3 numeral_2_eq_2 [symmetric])
  have len0: "length (vals ?d0) = n"
    by (simp only: convertChannel_cases) (rule mix_vals(1); simp add: channelOf_simps)
  have sh: "shape ?t' = butlast (shape t) @ [1, 3]"
    by (simp add: tf_stack_def convertChannel_cases mix_shape channelOf_simps)
  have len: "length (vals ?t') = 3 * n"
    using len0 by (simp add: tf_stack_def Let_def)
  have px: "(vals ?t' ! (3 * p), vals ?t' ! (3 * p + 1), vals ?t' ! (3 * p + 2))
      = mixed (vals t ! (3 * p), vals t ! (3 * p + 1), vals t ! (3 * p + 2))" if p: "p < n" for p
  proof -
    have i0: "3 * p < n * 3" "3 * p + 1 < n * 3" "3 * p + 2 < n * 3" using p by simp_all
    have m0: "(3 * p) mod 3 = 0" "(3 * p) div 3 = p" by simp_all
    have m1: "(3 * p + 1) mod 3 = 1" "(3 * p + 1) div 3 = p" by presburger+
    have m2: "(3 * p + 2) mod 3 = 2" "(3 * p + 2) div 3 = p" by presburger+
    have v0: "vals ?t' ! (3 * p) = vals ?d0 ! p"
      using i0(1) len0 m0 by (simp add: tf_stack_def Let_def)
    have v1: "vals ?t' ! (3 * p + 1) = vals ?d1 ! p"
      using i0(2) len0 m1 by (simp add: tf_stack_def Let_def)
    have v2: "vals ?t' ! (3 * p + 2) = vals ?d2 ! p"
      using i0(3) len0 m2 by (simp add: tf_stack_def Let_def)
    have e0: "vals ?d0 ! p
        = mixRow (vals t ! (3 * p)) 0.299 (vals t ! (3 * p + 1)) 0.587 (vals t ! (3 * p + 2)) 0.114"
      by (simp only: convertChannel_cases)
        (simp add: mix_vals(2) [OF _ _ _ p] channelOf_simps p mult.commute)
    have e1: "vals ?d1 ! p
        = mixRow (vals t ! (3 * p + 1)) (- 0.168736) (vals t ! (3 * p)) (- 0.331264)
            (vals t ! (3 * p + 2)) 0.5"
      by (simp only: convertChannel_cases)
        (simp add: mix_vals(2) [OF _ _ _ p] channelOf_simps p mult.commute)
    have e2: "vals ?d2 ! p
        = mixRow (vals t ! (3 * p + 2)) 0.5 (vals t ! (3 * p)) (- 0.418688)
            (vals t ! (3 * p + 1)) (- 0.081312)"
      by (simp only: convertChannel_cases)
        (simp add: mix_vals(2) [OF _ _ _ p] channelOf_simps p mult.commute)
    show ?thesis
      by (simp only: v0 v1 v2 e0 e1 e2 mixed_def prod.case)
  qed
  from conv sh len px show ?thesis by blast
qed

subsection \<open>A call of \<^verbatim>\<open>compress\<close> on a freshly built object\<close>

lemma compress_processed_char:
  assumes wf: "wf_imageData im"
    and bs: "blockSize (options this) = Num (of_nat B)" and B: "0 < B"
  shows "\<exists>processed.
           compress_processed this im = Inr processed
         \<and> createImageBlocks this (loadImage im)
             = Inr \<lparr>shape = [blocksAlong (height im) (of_nat B) * blocksAlong (width im) (of_nat B),
                            B, B, 3],
                    vals = vals (padded this (loadImage im))\<rparr>
         \<and> hd (shape processed)
             = blocksAlong (height im) (of_nat B) * blocksAlong (width im) (of_nat B)
         \<and> (colorSpace (options this) = RGB
              \<longrightarrow> vals processed = map (quantize (quantizationLevel (options this)))
                                       (vals (padded this (loadImage im))))
         \<and> (colorSpace (options this) = YCbCr
              \<longrightarrow> (\<forall>p. 3 * p + 2 < length (vals (padded this (loadImage im)))
                     \<longrightarrow> (vals processed ! (3 * p), vals processed ! (3 * p + 1),
                          vals processed ! (3 * p + 2))
                         = mixed (quantize (quantizationLevel (options this))
                                    (vals (padded this (loadImage im)) ! (3 * p)),
                                  quantize (quantizationLevel (options this))
                                    (vals (padded this (loadImage im)) ! (3 * p + 1)),
                                  quantize (quantizationLevel (options this))
                                    (vals (padded this (loadImage im)) ! (3 * p + 2)))))"
proof -
  let ?L = "quantizationLevel (options this)"
  let ?nb = "blocksAlong (height im) (of_nat B) * blocksAlong (width im) (of_nat B)"
  let ?v = "vals (padded this (loadImage im))"
  let ?n = "?nb * (B * B)"
  have len: "length (vals (loadImage im)) = height im * (width im * 3)"
    using wf by (simp add: wf_imageData_def loadImage_length)
  have tiled: "createImageBlocks this (loadImage im)
        = Inr \<lparr>shape = [?nb, B, B, 3], vals = ?v\<rparr>"
    using createImageBlocks_ok [OF loadImage_shape len bs B] by simp
  have lv: "length ?v = 3 * ?n"
    using length_padded [OF loadImage_shape len bs B] by (simp add: ac_simps)
  let ?q = "quantizeBlock this \<lparr>shape = [?nb, B, B, 3], vals = ?v\<rparr>"
  have qv: "vals ?q = map (quantize ?L) ?v"
    by (simp add: quantizeBlock_vals)
  show ?thesis
  proof (cases "colorSpace (options this)")
    case RGB
    then have "compress_processed this im = Inr ?q"
      by (simp add: compress_processed_def tiled Let_def)
    then show ?thesis
      using RGB tiled qv by (simp add: quantizeBlock_shape)
  next
    case YCbCr
    have "shape ?q \<noteq> []" "last (shape ?q) = 3"
      by (simp_all add: quantizeBlock_shape)
    moreover have "length (vals ?q) = 3 * ?n"
      by (simp add: qv lv)
    ultimately obtain t' where conv: "convertYCbCr ?q = Inr t'"
      and sh: "shape t' = butlast (shape ?q) @ [1, 3]"
      and px: "\<forall>p<?n. (vals t' ! (3 * p), vals t' ! (3 * p + 1), vals t' ! (3 * p + 2))
                 = mixed (vals ?q ! (3 * p), vals ?q ! (3 * p + 1), vals ?q ! (3 * p + 2))"
      using convertYCbCr_vals [of ?q ?n] by blast
    have cp: "compress_processed this im = Inr t'"
      using YCbCr conv by (simp add: compress_processed_def tiled Let_def)
    have hd: "hd (shape t') = ?nb"
      using sh by (simp add: quantizeBlock_shape)
    have pixels: "(vals t' ! (3 * p), vals t' ! (3 * p + 1), vals t' ! (3 * p + 2))
        = mixed (quantize ?L (?v ! (3 * p)), quantize ?L (?v ! (3 * p + 1)),
                 quantize ?L (?v ! (3 * p + 2)))"
      if p: "3 * p + 2 < length ?v" for p
    proof -
      have "p < ?n" using p lv by linarith
      moreover have "3 * p < length ?v" "3 * p + 1 < length ?v" using p by simp_all
      ultimately show ?thesis
        using px p by (simp add: qv)
    qed
    show ?thesis
      using YCbCr cp tiled hd pixels by simp
  qed
qed

text \<open>Quantizing the image and tiling it afterwards gives what the code computes.\<close>

lemma createImageBlocks_quantizeBlock:
  assumes sh: "shape t = [h, w, c]" and len: "length (vals t) = h * (w * c)"
    and bs: "blockSize (options this) = Num (of_nat B)" and B: "0 < B" and c: "0 < c"
  shows "\<exists>tiled. createImageBlocks this t = Inr tiled
           \<and> createImageBlocks this (quantizeBlock this t) = Inr (quantizeBlock this tiled)"
proof -
  let ?nb = "blocksAlong h (of_nat B) * blocksAlong w (of_nat B)"
  have a: "createImageBlocks this t = Inr \<lparr>shape = [?nb, B, B, c], vals = vals (padded this t)\<rparr>"
    by (rule createImageBlocks_ok [OF sh len bs B c])
  have shq: "shape (quantizeBlock this t) = [h, w, c]"
    using sh by (simp add: quantizeBlock_shape)
  have lenq: "length (vals (quantizeBlock this t)) = h * (w * c)"
    using len by (simp add: quantizeBlock_vals)
  have "createImageBlocks this (quantizeBlock this t)
      = Inr \<lparr>shape = [?nb, B, B, c], vals = vals (padded this (quantizeBlock this t))\<rparr>"
    by (rule createImageBlocks_ok [OF shq lenq bs B c])
  also have "\<dots> = Inr (quantizeBlock this \<lparr>shape = [?nb, B, B, c], vals = vals (padded this t)\<rparr>)"
    by (simp add: padded_quantizeBlock) (simp add: quantizeBlock_eq)
  finally show ?thesis using a by simp
qed

lemma compress_ok:
  assumes wf: "wf_imageData im"
    and bs: "blockSize (options this) = Num (of_nat B)" and B: "0 < B"
    and ctx: "contexts this = []"
  shows "compress str this im =
           Some (Inr \<lparr>compressed = replicate (blocksAlong (height im) (of_nat B)
                                                * blocksAlong (width im) (of_nat B)) [],
                      metadata = \<lparr>m_width = width im, m_height = height im,
                                  m_colorSpace = colorSpace (options this),
                                  m_blockSize = blockSize (options this),
                                  m_quantizationLevel = quantizationLevel (options this)\<rparr>\<rparr>,
                 this)"
proof -
  obtain p where "compress_processed this im = Inr p"
    and "hd (shape p) = blocksAlong (height im) (of_nat B) * blocksAlong (width im) (of_nat B)"
    using compress_processed_char [OF wf bs B] by blast
  then show ?thesis
    by (simp add: compress_def compressBlocks_empty [OF ctx])
qed

lemma options_no: "options (constructor no_options)
    = \<lparr>blockSize = Num 8, quantizationLevel = Num 8, colorSpace = YCbCr\<rparr>"
  by (simp add: constructor_def no_options_def orDefault_def)

lemma compress_1x1_defaults:
  "compress str (constructor no_options) \<lparr>width = 1, height = 1, data = [10, 20, 30, 255]\<rparr>
     = Some (Inr \<lparr>compressed = [[]],
                  metadata = \<lparr>m_width = 1, m_height = 1, m_colorSpace = YCbCr,
                              m_blockSize = Num 8, m_quantizationLevel = Num 8\<rparr>\<rparr>,
             constructor no_options)"
  using compress_ok [of "\<lparr>width = 1, height = 1, data = [10, 20, 30, 255]\<rparr>"
          "constructor no_options" 8 str]
    blocksAlong_one [of 1 8]
  by (simp add: wf_imageData_def options_no contexts_constructor)

text \<open>
  Claim C2. Whatever the block, \<^verbatim>\<open>compressBlock\<close> on a constructed object returns the
  empty bit sequence: after any run of samples the coder still holds the interval
  \<open>[0, 1)\<close> and has pushed nothing. Hence every per-block array in a result of
  \<^verbatim>\<open>compress\<close> is empty.
\<close>

theorem compressBlock_returns_no_bits:
  "compressBlock str (constructor opts) block = Some []
   \<and> codeSamples str (constructor opts) block idxs (0, 1, []) = Some (0, 1, [])
   \<and> (\<forall>r this'. compress str (constructor opts) im = Some (Inr r, this')
          \<longrightarrow> (\<forall>bits \<in> set (compressed r). bits = []))"
proof -
  have ctx: "contexts (constructor opts) = []" by (rule contexts_constructor)
  have "\<forall>bits \<in> set (compressed r). bits = []"
    if "compress str (constructor opts) im = Some (Inr r, this')" for r this'
    using that
    by (auto simp: compress_def compressBlocks_empty [OF ctx] split: sum.splits)
  then show ?thesis
    by (simp add: compressBlock_empty [OF ctx] codeSamples_empty [OF ctx])
qed

theorem compressBlock_returns_no_bits_witness:
  "compress numberToString (constructor no_options)
     \<lparr>width = 1, height = 1, data = [10, 20, 30, 255]\<rparr>
     = Some (Inr \<lparr>compressed = [[]],
                  metadata = \<lparr>m_width = 1, m_height = 1, m_colorSpace = YCbCr,
                              m_blockSize = Num 8, m_quantizationLevel = Num 8\<rparr>\<rparr>,
             constructor no_options)
   \<and> list_all (\<lambda>bits. bits = []) [[] :: nat list]
   \<and> compressBlock numberToString (constructor no_options) [3, 5, 7] = Some []
   \<and> codeSamples numberToString (constructor no_options) [3, 5, 7] [0, 1, 2] (0, 1, [])
       = Some (0, 1, [])"
proof -
  let ?im = "\<lparr>width = 1, height = 1, data = [10, 20, 30, 255]\<rparr>"
  have run: "compress numberToString (constructor no_options) ?im
     = Some (Inr \<lparr>compressed = [[]],
                  metadata = \<lparr>m_width = 1, m_height = 1, m_colorSpace = YCbCr,
                              m_blockSize = Num 8, m_quantizationLevel = Num 8\<rparr>\<rparr>,
             constructor no_options)"
    by (rule compress_1x1_defaults)
  show ?thesis
    using compressBlock_returns_no_bits
            [of numberToString no_options "[3, 5, 7]" "[0, 1, 2]" ?im]
          run
    by simp
qed

text \<open>
  Claim C10. No method assigns to \<^verbatim>\<open>contexts\<close>: in every object reachable from the
  constructor by calls of \<^verbatim>\<open>compress\<close> the table is empty, and \<^verbatim>\<open>getProbability\<close> returns
  \<open>low = 0\<close>, \<open>high = 1\<close> for every value and context.
\<close>

theorem contexts_stay_empty:
  assumes "reachable str this"
  shows "contexts this = [] \<and> getProbability str this v context = \<lparr>low = 0, high = 1\<rparr>"
  using assms by (simp add: reachable_contexts getProbability_empty)

theorem contexts_stay_empty_witness:
  "reachable numberToString (constructor no_options)
   \<and> compress numberToString (constructor no_options)
        \<lparr>width = 1, height = 1, data = [10, 20, 30, 255]\<rparr>
       = Some (Inr \<lparr>compressed = [[]],
                    metadata = \<lparr>m_width = 1, m_height = 1, m_colorSpace = YCbCr,
                                m_blockSize = Num 8, m_quantizationLevel = Num 8\<rparr>\<rparr>,
               \<lparr>contexts = [],
                  options = \<lparr>blockSize = Num 8, quantizationLevel = Num 8, colorSpace = YCbCr\<rparr>\<rparr>)
   \<and> reachable numberToString
        \<lparr>contexts = [], options = \<lparr>blockSize = Num 8, quantizationLevel = Num 8, colorSpace = YCbCr\<rparr>\<rparr>
   \<and> getProbability numberToString
        \<lparr>contexts = [], options = \<lparr>blockSize = Num 8, quantizationLevel = Num 8, colorSpace = YCbCr\<rparr>\<rparr>
        7 ''3|5'' = \<lparr>low = 0, high = 1\<rparr>"
proof -
  let ?im = "\<lparr>width = 1, height = 1, data = [10, 20, 30, 255]\<rparr>"
  let ?obj = "\<lparr>contexts = [],
                 options = \<lparr>blockSize = Num 8, quantizationLevel = Num 8, colorSpace = YCbCr\<rparr>\<rparr>"
  have r0: "reachable numberToString (constructor no_options)" by (rule reachable.constructed)
  have run: "compress numberToString (constructor no_options) ?im
     = Some (Inr \<lparr>compressed = [[]],
                  metadata = \<lparr>m_width = 1, m_height = 1, m_colorSpace = YCbCr,
                              m_blockSize = Num 8, m_quantizationLevel = Num 8\<rparr>\<rparr>,
             ?obj)"
    using compress_1x1_defaults [of numberToString]
    by (simp add: constructor_def no_options_def orDefault_def)
  have r1: "reachable numberToString ?obj" by (rule reachable.called [OF r0 run])
  show ?thesis
    using contexts_stay_empty [OF r1, of 7 "''3|5''"] r0 r1 run by simp
qed

subsection \<open>The probability interval\<close>







subsection \<open>Scenario A\<close>

lemma blocksAlong_16_8: "blocksAlong 16 8 = 2"
  by (simp add: blocksAlong_def)

lemma replicate_4: "replicate 4 x = [x, x, x, x]"
  by (simp add: numeral_eq_Suc)

lemma options_ui: "options (constructor ui_options)
    = \<lparr>blockSize = Num 8, quantizationLevel = Num 16, colorSpace = YCbCr\<rparr>"
  by (simp add: constructor_def ui_options_def orDefault_def)

lemma compress_16x16:
  assumes "width im = 16" "height im = 16" "length (data im) = 1024"
  shows "compress str (constructor ui_options) im =
           Some (Inr \<lparr>compressed = [[], [], [], []],
                      metadata = \<lparr>m_width = 16, m_height = 16, m_colorSpace = YCbCr,
                                  m_blockSize = Num 8, m_quantizationLevel = Num 16\<rparr>\<rparr>,
                 constructor ui_options)"
proof -
  have wf: "wf_imageData im" using assms by (simp add: wf_imageData_def)
  have bs: "blockSize (options (constructor ui_options)) = Num (of_nat 8)"
    by (simp add: options_ui)
  have B: "(0::nat) < 8" by simp
  show ?thesis
    using compress_ok [OF wf bs B contexts_constructor, of str]
    by (simp add: options_ui assms blocksAlong_16_8 replicate_4)
qed

text \<open>
  Claim C3, as amended. For a 16 by 16 RGBA image and the options \<open>blockSize = 8\<close>,
  \<open>quantizationLevel = 16\<close>, \<open>colorSpace = YCbCr\<close>, \<^verbatim>\<open>compress\<close> returns exactly four per-block
  bit sequences, each of them empty, and the metadata \<open>width = 16\<close>, \<open>height = 16\<close>,
  \<open>blockSize = 8\<close>, \<open>quantizationLevel = 16\<close>.
\<close>

theorem scenario_A_four_empty_sequences:
  assumes "width im = 16" "height im = 16" "length (data im) = 1024"
  shows "\<exists>r. compress str (constructor ui_options) im = Some (Inr r, constructor ui_options)
           \<and> length (compressed r) = 4
           \<and> compressed r = [[], [], [], []]
           \<and> m_width (metadata r) = 16 \<and> m_height (metadata r) = 16
           \<and> m_blockSize (metadata r) = Num 8 \<and> m_quantizationLevel (metadata r) = Num 16
           \<and> m_colorSpace (metadata r) = YCbCr"
  by (simp add: compress_16x16 [OF assms])

theorem scenario_A_four_empty_sequences_witness:
  "width \<lparr>width = 16, height = 16, data = replicate 1024 255\<rparr> = 16
   \<and> height \<lparr>width = 16, height = 16, data = replicate 1024 255\<rparr> = 16
   \<and> length (data \<lparr>width = 16, height = 16, data = replicate 1024 255\<rparr>) = 1024
   \<and> (\<exists>r. compress numberToString (constructor ui_options)
               \<lparr>width = 16, height = 16, data = replicate 1024 255\<rparr>
             = Some (Inr r, constructor ui_options)
           \<and> length (compressed r) = 4
           \<and> compressed r = [[], [], [], []]
           \<and> m_width (metadata r) = 16 \<and> m_height (metadata r) = 16
           \<and> m_blockSize (metadata r) = Num 8 \<and> m_quantizationLevel (metadata r) = Num 16
           \<and> m_colorSpace (metadata r) = YCbCr)"
  using scenario_A_four_empty_sequences
          [of "\<lparr>width = 16, height = 16, data = replicate 1024 255\<rparr>" numberToString]
  by simp

text \<open>
  The claim as the specification states it (four sequences, each non-empty) fails on the
  black 16 by 16 image: the call returns, and it is not the case that it returns four
  non-empty sequences.
\<close>

theorem scenario_A_nonempty_counterexample:
  "\<not> (case compress numberToString (constructor ui_options)
             \<lparr>width = 16, height = 16, data = replicate 1024 0\<rparr> of
         Some (Inr r, this') \<Rightarrow>
           length (compressed r) = 4 \<and> list_all (\<lambda>bits. bits \<noteq> []) (compressed r)
       | _ \<Rightarrow> False)"
  by (simp add: compress_16x16)

subsection \<open>The order of the stages\<close>

text \<open>Calls on an image of one pixel, evaluated.\<close>

lemma processed_16_0_0:
  "compress_processed
     (constructor \<lparr>given_blockSize = Some (Num 1), given_quantizationLevel = Some (Num 16),
                     given_colorSpace = Some YCbCr\<rparr>)
     \<lparr>width = 1, height = 1, data = [16, 0, 0, 255]\<rparr>
     = Inr \<lparr>shape = [1, 1, 1, 1, 3],
            vals = [10032775 / 2097152, - (11115375 / 2097152), - (7024419 / 1048576)]\<rparr>"
  by code_simp

lemma processed_10_0_0:
  "compress_processed
     (constructor \<lparr>given_blockSize = Some (Num 1), given_quantizationLevel = Some (Num 16),
                     given_colorSpace = Some YCbCr\<rparr>)
     \<lparr>width = 1, height = 1, data = [10, 0, 0, 255]\<rparr>
     = Inr \<lparr>shape = [1, 1, 1, 1, 3], vals = [0, 0, 0]\<rparr>"
  by code_simp

lemma spec_order_10_0_0:
  "spec_order_processed
     (constructor \<lparr>given_blockSize = Some (Num 1), given_quantizationLevel = Some (Num 16),
                     given_colorSpace = Some YCbCr\<rparr>)
     \<lparr>width = 1, height = 1, data = [10, 0, 0, 255]\<rparr>
     = Inr \<lparr>shape = [1, 1, 1, 3], vals = [0, - 16, - 16]\<rparr>"
  by code_simp

text \<open>
  Claim C4, as amended. In \<^verbatim>\<open>compress\<close> the colour transform is the last stage before the
  coder, not the first: the samples handed to the coder are the colour mix (for \<open>YCbCr\<close>)
  of the quantized samples of the padded, tiled image, and for \<open>RGB\<close> these quantized
  samples themselves. Tiling and quantization both come before the mix; \<^verbatim>\<open>compress\<close> calls
  the tiling first, and calling the quantizer first would give the same blocks, the
  quantizer acting on every sample alone and fixing the zeros of the padding. The coder
  then runs over the blocks of the result, and its sequences are returned with the
  metadata. The statement is for images of at most 1024 by 1024 pixels, whole block sizes
  from 1 to 256 and whole quantization levels other than \<open>0\<close> below \<open>2\<^sup>2\<^sup>4\<close> in size; the
  samples are the binary32 values that the tensor operations compute.
\<close>

theorem compress_mixes_quantized_tiles:
  assumes "wf_imageData im" "byte_data im" "width im \<le> 1024" "height im \<le> 1024"
    and "blockSize (options this) = Num (of_nat B)" "0 < B" "B \<le> 256"
    and "quantizationLevel (options this) = Num (of_int q)" "q \<noteq> 0" "\<bar>q\<bar> < 2 ^ 24"
  shows "\<exists>tiled processed.
           createImageBlocks this (loadImage im) = Inr tiled
         \<and> vals tiled = vals (padded this (loadImage im))
         \<and> createImageBlocks this (quantizeBlock this (loadImage im))
             = Inr (quantizeBlock this tiled)
         \<and> vals (quantizeBlock this tiled) = map (quantize (Num (of_int q))) (vals tiled)
         \<and> compress_processed this im = Inr processed
         \<and> (colorSpace (options this) = RGB \<longrightarrow> processed = quantizeBlock this tiled)
         \<and> (colorSpace (options this) = YCbCr
              \<longrightarrow> convertYCbCr (quantizeBlock this tiled) = Inr processed
                \<and> (\<forall>p. 3 * p + 2 < length (vals tiled)
                     \<longrightarrow> (vals processed ! (3 * p), vals processed ! (3 * p + 1),
                          vals processed ! (3 * p + 2))
                         = mixed (quantize (Num (of_int q)) (vals tiled ! (3 * p)),
                                  quantize (Num (of_int q)) (vals tiled ! (3 * p + 1)),
                                  quantize (Num (of_int q)) (vals tiled ! (3 * p + 2)))))
         \<and> map_option fst (compress str this im)
             = map_option
                 (\<lambda>c. Inr \<lparr>compressed = c,
                            metadata = \<lparr>m_width = width im, m_height = height im,
                                        m_colorSpace = colorSpace (options this),
                                        m_blockSize = blockSize (options this),
                                        m_quantizationLevel = quantizationLevel (options this)\<rparr>\<rparr>)
                 (compressBlocks str this processed)"
proof -
  let ?L = "quantizationLevel (options this)"
  let ?nb = "blocksAlong (height im) (of_nat B) * blocksAlong (width im) (of_nat B)"
  let ?tiled = "\<lparr>shape = [?nb, B, B, 3], vals = vals (padded this (loadImage im))\<rparr>"
  have wf: "wf_imageData im" and bs: "blockSize (options this) = Num (of_nat B)"
    and B: "0 < B" and L: "?L = Num (of_int q)"
    using assms by simp_all
  obtain processed where cp: "compress_processed this im = Inr processed"
    and tiled: "createImageBlocks this (loadImage im) = Inr ?tiled"
    and ycc: "colorSpace (options this) = YCbCr
              \<longrightarrow> (\<forall>p. 3 * p + 2 < length (vals (padded this (loadImage im)))
                     \<longrightarrow> (vals processed ! (3 * p), vals processed ! (3 * p + 1),
                          vals processed ! (3 * p + 2))
                         = mixed (quantize ?L (vals (padded this (loadImage im)) ! (3 * p)),
                                  quantize ?L (vals (padded this (loadImage im)) ! (3 * p + 1)),
                                  quantize ?L (vals (padded this (loadImage im)) ! (3 * p + 2))))"
    using compress_processed_char [OF wf bs B] by blast
  have len: "length (vals (loadImage im)) = height im * (width im * 3)"
    using wf by (simp add: wf_imageData_def loadImage_length)
  have three: "(0::nat) < 3" by simp
  have comm: "createImageBlocks this (quantizeBlock this (loadImage im))
        = Inr (quantizeBlock this ?tiled)"
    using createImageBlocks_quantizeBlock [OF loadImage_shape len bs B three] tiled by auto
  have qv: "vals (quantizeBlock this ?tiled) = map (quantize (Num (of_int q))) (vals ?tiled)"
    by (simp only: quantizeBlock_vals L)
  have stage: "compress_processed this im
        = (if colorSpace (options this) = YCbCr then convertYCbCr (quantizeBlock this ?tiled)
           else Inr (quantizeBlock this ?tiled))"
    by (simp add: compress_processed_def tiled Let_def)
  have rgb: "colorSpace (options this) = RGB \<longrightarrow> processed = quantizeBlock this ?tiled"
    using stage cp by auto
  have conv: "colorSpace (options this) = YCbCr
      \<longrightarrow> convertYCbCr (quantizeBlock this ?tiled) = Inr processed"
    using stage cp by auto
  have run: "map_option fst (compress str this im)
             = map_option
                 (\<lambda>c. Inr \<lparr>compressed = c,
                            metadata = \<lparr>m_width = width im, m_height = height im,
                                        m_colorSpace = colorSpace (options this),
                                        m_blockSize = blockSize (options this),
                                        m_quantizationLevel = quantizationLevel (options this)\<rparr>\<rparr>)
                 (compressBlocks str this processed)"
    by (simp add: compress_def cp split: option.splits)
  have "createImageBlocks this (loadImage im) = Inr ?tiled
         \<and> vals ?tiled = vals (padded this (loadImage im))
         \<and> createImageBlocks this (quantizeBlock this (loadImage im))
             = Inr (quantizeBlock this ?tiled)
         \<and> vals (quantizeBlock this ?tiled) = map (quantize (Num (of_int q))) (vals ?tiled)
         \<and> compress_processed this im = Inr processed
         \<and> (colorSpace (options this) = RGB \<longrightarrow> processed = quantizeBlock this ?tiled)
         \<and> (colorSpace (options this) = YCbCr
              \<longrightarrow> convertYCbCr (quantizeBlock this ?tiled) = Inr processed
                \<and> (\<forall>p. 3 * p + 2 < length (vals ?tiled)
                     \<longrightarrow> (vals processed ! (3 * p), vals processed ! (3 * p + 1),
                          vals processed ! (3 * p + 2))
                         = mixed (quantize (Num (of_int q)) (vals ?tiled ! (3 * p)),
                                  quantize (Num (of_int q)) (vals ?tiled ! (3 * p + 1)),
                                  quantize (Num (of_int q)) (vals ?tiled ! (3 * p + 2)))))
         \<and> map_option fst (compress str this im)
             = map_option
                 (\<lambda>c. Inr \<lparr>compressed = c,
                            metadata = \<lparr>m_width = width im, m_height = height im,
                                        m_colorSpace = colorSpace (options this),
                                        m_blockSize = blockSize (options this),
                                        m_quantizationLevel = quantizationLevel (options this)\<rparr>\<rparr>)
                 (compressBlocks str this processed)"
    using tiled comm qv cp rgb conv ycc run unfolding L by simp
  then show ?thesis by blast
qed

theorem compress_mixes_quantized_tiles_witness:
  "wf_imageData \<lparr>width = 1, height = 1, data = [128, 0, 0, 255]\<rparr>
   \<and> byte_data \<lparr>width = 1, height = 1, data = [128, 0, 0, 255]\<rparr>
   \<and> width \<lparr>width = 1, height = 1, data = [128, 0, 0, 255]\<rparr> \<le> 1024
   \<and> height \<lparr>width = 1, height = 1, data = [128, 0, 0, 255]\<rparr> \<le> 1024
   \<and> blockSize (options (constructor
        \<lparr>given_blockSize = Some (Num 1), given_quantizationLevel = Some (Num 14),
           given_colorSpace = Some RGB\<rparr>)) = Num (of_nat 1)
   \<and> (0 :: nat) < 1 \<and> (1 :: nat) \<le> 256
   \<and> quantizationLevel (options (constructor
        \<lparr>given_blockSize = Some (Num 1), given_quantizationLevel = Some (Num 14),
           given_colorSpace = Some RGB\<rparr>)) = Num (of_int 14)
   \<and> (14 :: int) \<noteq> 0 \<and> \<bar>14 :: int\<bar> < 2 ^ 24
   \<and> createImageBlocks
        (constructor \<lparr>given_blockSize = Some (Num 1), given_quantizationLevel = Some (Num 14),
                        given_colorSpace = Some RGB\<rparr>)
        (loadImage \<lparr>width = 1, height = 1, data = [128, 0, 0, 255]\<rparr>)
       = Inr \<lparr>shape = [1, 1, 1, 3], vals = [128, 0, 0]\<rparr>
   \<and> createImageBlocks
        (constructor \<lparr>given_blockSize = Some (Num 1), given_quantizationLevel = Some (Num 14),
                        given_colorSpace = Some RGB\<rparr>)
        (quantizeBlock
           (constructor \<lparr>given_blockSize = Some (Num 1), given_quantizationLevel = Some (Num 14),
                           given_colorSpace = Some RGB\<rparr>)
           (loadImage \<lparr>width = 1, height = 1, data = [128, 0, 0, 255]\<rparr>))
       = Inr \<lparr>shape = [1, 1, 1, 3], vals = [1797559 / 16384, 0, 0]\<rparr>
   \<and> compress_processed
        (constructor \<lparr>given_blockSize = Some (Num 1), given_quantizationLevel = Some (Num 14),
                        given_colorSpace = Some RGB\<rparr>)
        \<lparr>width = 1, height = 1, data = [128, 0, 0, 255]\<rparr>
       = Inr \<lparr>shape = [1, 1, 1, 3], vals = [1797559 / 16384, 0, 0]\<rparr>
   \<and> map (quantize (Num (of_int 14))) [128, 0, 0] = [1797559 / 16384, 0, 0]
   \<and> wf_imageData \<lparr>width = 1, height = 1, data = [16, 0, 0, 255]\<rparr>
   \<and> byte_data \<lparr>width = 1, height = 1, data = [16, 0, 0, 255]\<rparr>
   \<and> blockSize (options (constructor
        \<lparr>given_blockSize = Some (Num 1), given_quantizationLevel = Some (Num 16),
           given_colorSpace = Some YCbCr\<rparr>)) = Num (of_nat 1)
   \<and> quantizationLevel (options (constructor
        \<lparr>given_blockSize = Some (Num 1), given_quantizationLevel = Some (Num 16),
           given_colorSpace = Some YCbCr\<rparr>)) = Num (of_int 16)
   \<and> (16 :: int) \<noteq> 0 \<and> \<bar>16 :: int\<bar> < 2 ^ 24
   \<and> compress_processed
        (constructor \<lparr>given_blockSize = Some (Num 1), given_quantizationLevel = Some (Num 16),
                        given_colorSpace = Some YCbCr\<rparr>)
        \<lparr>width = 1, height = 1, data = [16, 0, 0, 255]\<rparr>
       = Inr \<lparr>shape = [1, 1, 1, 1, 3],
              vals = [10032775 / 2097152, - (11115375 / 2097152), - (7024419 / 1048576)]\<rparr>"
proof -
  let ?im = "\<lparr>width = 1, height = 1, data = [128, 0, 0, 255]\<rparr>"
  let ?im2 = "\<lparr>width = 1, height = 1, data = [16, 0, 0, 255]\<rparr>"
  let ?obj = "constructor \<lparr>given_blockSize = Some (Num 1), given_quantizationLevel = Some (Num 14),
                            given_colorSpace = Some RGB\<rparr>"
  let ?obj2 = "constructor \<lparr>given_blockSize = Some (Num 1), given_quantizationLevel = Some (Num 16),
                             given_colorSpace = Some YCbCr\<rparr>"
  have wf: "wf_imageData ?im" "wf_imageData ?im2" by (simp_all add: wf_imageData_def)
  have bytes: "byte_data ?im" "byte_data ?im2" by (simp_all add: byte_data_def)
  have size: "width ?im \<le> 1024" "height ?im \<le> 1024" "width ?im2 \<le> 1024" "height ?im2 \<le> 1024"
    by simp_all
  have bs: "blockSize (options ?obj) = Num (of_nat 1)" "blockSize (options ?obj2) = Num (of_nat 1)"
    by (simp_all add: constructor_def orDefault_def)
  have B: "(0 :: nat) < 1" "(1 :: nat) \<le> 256" by simp_all
  have lv: "quantizationLevel (options ?obj) = Num (of_int 14)"
    "quantizationLevel (options ?obj2) = Num (of_int 16)"
    by (simp_all add: constructor_def orDefault_def)
  have q: "(14 :: int) \<noteq> 0" "\<bar>14 :: int\<bar> < 2 ^ 24" "(16 :: int) \<noteq> 0" "\<bar>16 :: int\<bar> < 2 ^ 24"
    by simp_all
  have e1: "createImageBlocks ?obj (loadImage ?im)
      = Inr \<lparr>shape = [1, 1, 1, 3], vals = [128, 0, 0]\<rparr>"
    by code_simp
  have e2: "createImageBlocks ?obj (quantizeBlock ?obj (loadImage ?im))
      = Inr \<lparr>shape = [1, 1, 1, 3], vals = [1797559 / 16384, 0, 0]\<rparr>"
    by code_simp
  have e3: "compress_processed ?obj ?im
      = Inr \<lparr>shape = [1, 1, 1, 3], vals = [1797559 / 16384, 0, 0]\<rparr>"
    by code_simp
  have e4: "map (quantize (Num (of_int 14))) [128, 0, 0] = [1797559 / 16384, 0, 0]"
    by code_simp
  note ev = e1 e2 e3 e4 processed_16_0_0
  from compress_mixes_quantized_tiles
         [OF wf(1) bytes(1) size(1,2) bs(1) B lv(1) q(1,2), of numberToString]
    compress_mixes_quantized_tiles
         [OF wf(2) bytes(2) size(3,4) bs(2) B lv(2) q(3,4), of numberToString]
    wf bytes size bs B lv q ev
  show ?thesis by blast
qed

text \<open>
  The order of the specification's overview (colour transform first, then tiling, then
  quantization) gives other samples than \<^verbatim>\<open>compress\<close> hands to its coder: for the one
  pixel \<open>(10, 0, 0)\<close> at \<open>blockSize = 1\<close> and \<open>quantizationLevel = 16\<close> the code quantizes to
  \<open>(0, 0, 0)\<close> and mixes that, while mixing first gives about \<open>(2.99, -3.31264, -4.18688)\<close>,
  which quantizes to \<open>(0, -16, -16)\<close>.
\<close>

theorem transform_first_counterexample:
  "map_sum id vals
     (compress_processed
        (constructor \<lparr>given_blockSize = Some (Num 1), given_quantizationLevel = Some (Num 16),
                        given_colorSpace = Some YCbCr\<rparr>)
        \<lparr>width = 1, height = 1, data = [10, 0, 0, 255]\<rparr>) = Inr [0, 0, 0]
   \<and> map_sum id vals
     (spec_order_processed
        (constructor \<lparr>given_blockSize = Some (Num 1), given_quantizationLevel = Some (Num 16),
                        given_colorSpace = Some YCbCr\<rparr>)
        \<lparr>width = 1, height = 1, data = [10, 0, 0, 255]\<rparr>) = Inr [0, - 16, - 16]
   \<and> map_sum id vals
     (compress_processed
        (constructor \<lparr>given_blockSize = Some (Num 1), given_quantizationLevel = Some (Num 16),
                        given_colorSpace = Some YCbCr\<rparr>)
        \<lparr>width = 1, height = 1, data = [10, 0, 0, 255]\<rparr>)
     \<noteq> map_sum id vals
     (spec_order_processed
        (constructor \<lparr>given_blockSize = Some (Num 1), given_quantizationLevel = Some (Num 16),
                        given_colorSpace = Some YCbCr\<rparr>)
        \<lparr>width = 1, height = 1, data = [10, 0, 0, 255]\<rparr>)"
  using processed_10_0_0 spec_order_10_0_0 by simp

subsection \<open>The colour conversion inside \<^verbatim>\<open>compress\<close> and \<^verbatim>\<open>rgbToYCbCr\<close>\<close>

text \<open>
  Claim C5 does not hold of the code. For the pixel \<open>(16, 0, 0)\<close> (already a multiple of
  the step \<open>16\<close>) the conversion inside \<^verbatim>\<open>compress\<close> gives the binary32 values nearest to
  \<open>(4.784, -5.300224, -6.699008)\<close>, while \<^verbatim>\<open>rgbToYCbCr\<close> gives \<open>(4.784, 125.300224, 136)\<close>: the
  offsets \<open>128\<close> are absent, and in the second and third rows the coefficients meet the
  wrong channels.
\<close>

theorem compress_conversion_is_not_rgbToYCbCr:
  "compress_processed
     (constructor \<lparr>given_blockSize = Some (Num 1), given_quantizationLevel = Some (Num 16),
                     given_colorSpace = Some YCbCr\<rparr>)
     \<lparr>width = 1, height = 1, data = [16, 0, 0, 255]\<rparr>
     = Inr \<lparr>shape = [1, 1, 1, 1, 3],
            vals = [10032775 / 2097152, - (11115375 / 2097152), - (7024419 / 1048576)]\<rparr>
   \<and> rgbToYCbCr 16 0 0 = (4.784, 125.300224, 136)"
  using processed_16_0_0 by (simp add: rgbToYCbCr_def)

subsection \<open>Blocks and tiles\<close>

text \<open>
  Claim C6 does not hold of the code. \<^verbatim>\<open>tf.reshape\<close> keeps the row-major order of the
  padded image, so a block is a run of \<open>blockSize\<^sup>2\<close> consecutive pixels in scan order. For
  the image of four by two pixels and \<open>blockSize = 2\<close>, block \<open>0\<close> is the whole first row
  (pixels 0, 1, 2, 3), whereas the first 2 by 2 tile holds the pixels 0, 1, 4, 5.
\<close>

theorem createImageBlocks_blocks_are_not_tiles:
  "map_sum id blockData
     (createImageBlocks
        (constructor \<lparr>given_blockSize = Some (Num 2), given_quantizationLevel = None,
                        given_colorSpace = None\<rparr>)
        (loadImage image_4x2))
     = Inr [[1, 2, 3, 11, 12, 13, 21, 22, 23, 31, 32, 33],
            [41, 42, 43, 51, 52, 53, 61, 62, 63, 71, 72, 73]]
   \<and> spec_tiles
        (padded
           (constructor \<lparr>given_blockSize = Some (Num 2), given_quantizationLevel = None,
                           given_colorSpace = None\<rparr>)
           (loadImage image_4x2))
        2
     = [[1, 2, 3, 11, 12, 13, 41, 42, 43, 51, 52, 53],
        [21, 22, 23, 31, 32, 33, 61, 62, 63, 71, 72, 73]]"
  by code_simp

subsection \<open>Configurations that are not positive\<close>

lemma compress_negative_blockSize:
  assumes "blockSize (options this) = Num b" "b < 0"
  shows "compress str this im = Some (Inl ShapeError, this)"
  using createImageBlocks_negative [OF assms, of "loadImage im"]
  by (simp add: compress_def compress_processed_def Let_def)

text \<open>
  Claim C7, as amended. The constructor validates nothing and reports nothing: it returns
  an object for every configuration. A block size or quantization level that is absent,
  \<open>0\<close> or \<open>NaN\<close> becomes \<open>8\<close>; any other value, a negative one too, is stored as given. A
  negative block size surfaces only later and not as a configuration error: every call of
  \<^verbatim>\<open>compress\<close> on such an object loads the image and then throws while tiling, where
  \<^verbatim>\<open>tf.reshape\<close> rejects the shape, and produces no output. A non-positive quantization
  level is never reported: when the stored block size is a whole number from 1 to 256,
  \<^verbatim>\<open>compress\<close> runs to its end on every image of at most 1024 by 1024 pixels and returns an
  output whose metadata echo the stored values, whatever the quantization level.
\<close>

theorem constructor_reports_nothing:
  "(given_blockSize opts = None \<or> given_blockSize opts = Some NaN
      \<or> given_blockSize opts = Some (Num 0)
        \<longrightarrow> blockSize (options (constructor opts)) = Num 8)
   \<and> (given_blockSize opts = Some n \<and> n \<noteq> NaN \<and> n \<noteq> Num 0
        \<longrightarrow> blockSize (options (constructor opts)) = n)
   \<and> (given_quantizationLevel opts = None \<or> given_quantizationLevel opts = Some NaN
      \<or> given_quantizationLevel opts = Some (Num 0)
        \<longrightarrow> quantizationLevel (options (constructor opts)) = Num 8)
   \<and> (given_quantizationLevel opts = Some m \<and> m \<noteq> NaN \<and> m \<noteq> Num 0
        \<longrightarrow> quantizationLevel (options (constructor opts)) = m)
   \<and> (given_blockSize opts = Some (Num b) \<and> b < 0
        \<longrightarrow> compress str (constructor opts) im = Some (Inl ShapeError, constructor opts))
   \<and> (wf_imageData im \<and> byte_data im \<and> width im \<le> 1024 \<and> height im \<le> 1024
      \<and> blockSize (options (constructor opts)) = Num (of_nat B) \<and> 0 < B \<and> B \<le> 256
        \<longrightarrow> (\<exists>r. compress str (constructor opts) im = Some (Inr r, constructor opts)
                 \<and> m_blockSize (metadata r) = Num (of_nat B)
                 \<and> m_quantizationLevel (metadata r)
                     = quantizationLevel (options (constructor opts))))"
proof -
  have fields:
    "given_blockSize opts = None \<or> given_blockSize opts = Some NaN
      \<or> given_blockSize opts = Some (Num 0)
        \<longrightarrow> blockSize (options (constructor opts)) = Num 8"
    "given_blockSize opts = Some n \<and> n \<noteq> NaN \<and> n \<noteq> Num 0
        \<longrightarrow> blockSize (options (constructor opts)) = n"
    "given_quantizationLevel opts = None \<or> given_quantizationLevel opts = Some NaN
      \<or> given_quantizationLevel opts = Some (Num 0)
        \<longrightarrow> quantizationLevel (options (constructor opts)) = Num 8"
    "given_quantizationLevel opts = Some m \<and> m \<noteq> NaN \<and> m \<noteq> Num 0
        \<longrightarrow> quantizationLevel (options (constructor opts)) = m"
    by (auto simp: constructor_def orDefault_def)
  have throws: "compress str (constructor opts) im = Some (Inl ShapeError, constructor opts)"
    if "given_blockSize opts = Some (Num b)" "b < 0"
  proof -
    have "blockSize (options (constructor opts)) = Num b"
      using that by (simp add: constructor_def orDefault_def)
    then show ?thesis using that(2) by (rule compress_negative_blockSize)
  qed
  have run: "\<exists>r. compress str (constructor opts) im = Some (Inr r, constructor opts)
                 \<and> m_blockSize (metadata r) = Num (of_nat B)
                 \<and> m_quantizationLevel (metadata r)
                     = quantizationLevel (options (constructor opts))"
    if wf: "wf_imageData im"
      and bs: "blockSize (options (constructor opts)) = Num (of_nat B)" and B: "0 < B"
    using compress_ok [OF wf bs B contexts_constructor, of str] bs by simp
  from fields throws run show ?thesis by blast
qed

theorem constructor_reports_nothing_witness:
  "given_blockSize \<lparr>given_blockSize = Some (Num 0), given_quantizationLevel = Some (Num (- 16)),
                     given_colorSpace = None\<rparr> = Some (Num 0)
   \<and> given_quantizationLevel
        \<lparr>given_blockSize = Some (Num 0), given_quantizationLevel = Some (Num (- 16)),
           given_colorSpace = None\<rparr> = Some (Num (- 16))
   \<and> Num (- 16) \<noteq> NaN \<and> Num (- 16) \<noteq> Num 0
   \<and> wf_imageData \<lparr>width = 1, height = 1, data = [10, 20, 30, 255]\<rparr>
   \<and> byte_data \<lparr>width = 1, height = 1, data = [10, 20, 30, 255]\<rparr>
   \<and> width \<lparr>width = 1, height = 1, data = [10, 20, 30, 255]\<rparr> \<le> 1024
   \<and> height \<lparr>width = 1, height = 1, data = [10, 20, 30, 255]\<rparr> \<le> 1024
   \<and> blockSize (options (constructor \<lparr>given_blockSize = Some (Num 0),
         given_quantizationLevel = Some (Num (- 16)), given_colorSpace = None\<rparr>))
       = Num (of_nat 8)
   \<and> (0 :: nat) < 8 \<and> (8 :: nat) \<le> 256
   \<and> quantizationLevel (options (constructor \<lparr>given_blockSize = Some (Num 0),
         given_quantizationLevel = Some (Num (- 16)), given_colorSpace = None\<rparr>)) = Num (- 16)
   \<and> (\<exists>r. compress numberToString
              (constructor \<lparr>given_blockSize = Some (Num 0),
                 given_quantizationLevel = Some (Num (- 16)), given_colorSpace = None\<rparr>)
              \<lparr>width = 1, height = 1, data = [10, 20, 30, 255]\<rparr>
            = Some (Inr r, constructor \<lparr>given_blockSize = Some (Num 0),
                     given_quantizationLevel = Some (Num (- 16)), given_colorSpace = None\<rparr>)
          \<and> m_blockSize (metadata r) = Num 8 \<and> m_quantizationLevel (metadata r) = Num (- 16))
   \<and> given_blockSize \<lparr>given_blockSize = Some NaN, given_quantizationLevel = Some (Num 0),
                       given_colorSpace = None\<rparr> = Some NaN
   \<and> given_quantizationLevel \<lparr>given_blockSize = Some NaN, given_quantizationLevel = Some (Num 0),
                                given_colorSpace = None\<rparr> = Some (Num 0)
   \<and> blockSize (options (constructor \<lparr>given_blockSize = Some NaN,
         given_quantizationLevel = Some (Num 0), given_colorSpace = None\<rparr>)) = Num 8
   \<and> quantizationLevel (options (constructor \<lparr>given_blockSize = Some NaN,
         given_quantizationLevel = Some (Num 0), given_colorSpace = None\<rparr>)) = Num 8
   \<and> given_blockSize \<lparr>given_blockSize = Some (Num (- 8)), given_quantizationLevel = None,
                       given_colorSpace = None\<rparr> = Some (Num (- 8))
   \<and> Num (- 8) \<noteq> NaN \<and> Num (- 8) \<noteq> Num 0 \<and> (- 8 :: rat) < 0
   \<and> blockSize (options (constructor \<lparr>given_blockSize = Some (Num (- 8)),
         given_quantizationLevel = None, given_colorSpace = None\<rparr>)) = Num (- 8)
   \<and> compress numberToString
        (constructor \<lparr>given_blockSize = Some (Num (- 8)), given_quantizationLevel = None,
                        given_colorSpace = None\<rparr>)
        \<lparr>width = 1, height = 1, data = [10, 20, 30, 255]\<rparr>
       = Some (Inl ShapeError,
               constructor \<lparr>given_blockSize = Some (Num (- 8)), given_quantizationLevel = None,
                               given_colorSpace = None\<rparr>)"
  using constructor_reports_nothing
          [of "\<lparr>given_blockSize = Some (Num 0), given_quantizationLevel = Some (Num (- 16)),
                 given_colorSpace = None\<rparr>"
              "Num 0" "Num (- 16)" 0 numberToString
              "\<lparr>width = 1, height = 1, data = [10, 20, 30, 255]\<rparr>" 8]
        constructor_reports_nothing
          [of "\<lparr>given_blockSize = Some NaN, given_quantizationLevel = Some (Num 0),
                 given_colorSpace = None\<rparr>"
              NaN "Num 0" 0 numberToString
              "\<lparr>width = 1, height = 1, data = [10, 20, 30, 255]\<rparr>" 8]
        constructor_reports_nothing
          [of "\<lparr>given_blockSize = Some (Num (- 8)), given_quantizationLevel = None,
                 given_colorSpace = None\<rparr>"
              "Num (- 8)" NaN "- 8" numberToString
              "\<lparr>width = 1, height = 1, data = [10, 20, 30, 255]\<rparr>" 8]
  by (auto simp: wf_imageData_def byte_data_def constructor_def orDefault_def)

text \<open>
  The claim as the specification states it fails for the block size \<open>0\<close> and the
  quantization level \<open>-16\<close>: nothing is reported, the object is built with the block size
  \<open>8\<close> and the level \<open>-16\<close>, and \<^verbatim>\<open>compress\<close> returns an output.
\<close>

theorem nonpositive_configuration_counterexample:
  "compress numberToString
     (constructor \<lparr>given_blockSize = Some (Num 0), given_quantizationLevel = Some (Num (- 16)),
                     given_colorSpace = None\<rparr>)
     \<lparr>width = 1, height = 1, data = [10, 20, 30, 255]\<rparr>
   = Some (Inr \<lparr>compressed = [[]],
                metadata = \<lparr>m_width = 1, m_height = 1, m_colorSpace = YCbCr,
                            m_blockSize = Num 8, m_quantizationLevel = Num (- 16)\<rparr>\<rparr>,
           \<lparr>contexts = [],
              options = \<lparr>blockSize = Num 8, quantizationLevel = Num (- 16),
                          colorSpace = YCbCr\<rparr>\<rparr>)"
  using compress_ok
          [of "\<lparr>width = 1, height = 1, data = [10, 20, 30, 255]\<rparr>"
              "constructor \<lparr>given_blockSize = Some (Num 0),
                 given_quantizationLevel = Some (Num (- 16)), given_colorSpace = None\<rparr>"
              8 numberToString]
    blocksAlong_one [of 1 8]
  by (simp add: wf_imageData_def constructor_def orDefault_def)

subsection \<open>The quantizer\<close>







end
